theory Spec2Isabelle
  imports Complex_Main
begin

section \<open>Python values\<close>

text \<open>
  The scalar values that travel through \<^verbatim>\<open>bot.py\<close>: \<^verbatim>\<open>None\<close>, integers (entity ids) and
  strings (names, codes, emails, chat ids). On these three Python's \<^verbatim>\<open>==\<close> is structural
  equality. Lists and dictionaries are typed below, where the code uses them.
\<close>

datatype pyval = PNone | PInt int | PStr string

text \<open>Truthiness, as \<^verbatim>\<open>if x:\<close> tests it.\<close>

fun truthy :: "pyval \<Rightarrow> bool" where
  "truthy PNone = False"
| "truthy (PInt i) = (i \<noteq> 0)"
| "truthy (PStr s) = (s \<noteq> [])"

text \<open>\<^verbatim>\<open>str(x)\<close>, which an f-string applies to each interpolated value.\<close>

fun show_nat :: "nat \<Rightarrow> string" where
  "show_nat n = (if n < 10 then [''0123456789'' ! n]
                 else show_nat (n div 10) @ [''0123456789'' ! (n mod 10)])"

declare show_nat.simps [simp del]

fun py_str :: "pyval \<Rightarrow> string" where
  "py_str PNone = ''None''"
| "py_str (PInt i) = (if i < 0 then ''-'' @ show_nat (nat (- i)) else show_nat (nat i))"
| "py_str (PStr s) = s"

text \<open>\<^verbatim>\<open>d.get(key, default)\<close> on one field of a record: \<open>None\<close> is the absent key.\<close>

fun get_d :: "'a option \<Rightarrow> 'a \<Rightarrow> 'a" where
  "get_d None d = d"
| "get_d (Some v) d = v"

section \<open>The rate limiter\<close>

text \<open>
  \<^verbatim>\<open>class Throttler\<close> (lines 30-47). The lock makes \<^verbatim>\<open>throttle\<close> one atomic step; the
  reading of \<^verbatim>\<open>time.time()\<close> is its argument. Times are real numbers.
\<close>

record Throttler =
  max_calls :: int
  period :: real
  calls :: int
  last_reset :: real

definition Throttler_init :: "int \<Rightarrow> real \<Rightarrow> real \<Rightarrow> Throttler" where
  "Throttler_init mc p now = \<lparr>max_calls = mc, period = p, calls = 0, last_reset = now\<rparr>"

definition throttle :: "Throttler \<Rightarrow> real \<Rightarrow> bool \<times> Throttler" where
  "throttle self current_time =
     (let self1 = (if current_time - last_reset self > period self
                   then self\<lparr>calls := 0, last_reset := current_time\<rparr>
                   else self)
      in if calls self1 < max_calls self1
         then (True, self1\<lparr>calls := calls self1 + 1\<rparr>)
         else (False, self1))"

text \<open>A sequence of \<^verbatim>\<open>throttle()\<close> calls at the given clock readings: the answers, in order.\<close>

fun throttle_all :: "Throttler \<Rightarrow> real list \<Rightarrow> bool list" where
  "throttle_all self [] = []"
| "throttle_all self (t # ts) = (case throttle self t of (r, self') \<Rightarrow> r # throttle_all self' ts)"

definition admitted :: "bool list \<Rightarrow> nat" where
  "admitted rs = length (filter (\<lambda>r. r) rs)"

definition rejected :: "bool list \<Rightarrow> nat" where
  "rejected rs = length (filter (\<lambda>r. \<not> r) rs)"

text \<open>The module's instance, line 50: \<^verbatim>\<open>throttler = Throttler(max_calls=5, period=10)\<close>.\<close>

definition throttler :: "real \<Rightarrow> Throttler" where
  "throttler now = Throttler_init 5 10 now"

text \<open>
  How many calls are admitted at a clock reading inside the rolling window
  \<open>[s, s + period)\<close>.
\<close>

definition admitted_in_window :: "Throttler \<Rightarrow> real list \<Rightarrow> real \<Rightarrow> nat" where
  "admitted_in_window self ts s =
     length (filter (\<lambda>(t, r). r \<and> s \<le> t \<and> t < s + period self)
                    (zip ts (throttle_all self ts)))"

text \<open>The limiter after a sequence of \<^verbatim>\<open>throttle()\<close> calls.\<close>

fun throttle_end :: "Throttler \<Rightarrow> real list \<Rightarrow> Throttler" where
  "throttle_end self [] = self"
| "throttle_end self (t # ts) = throttle_end (snd (throttle self t)) ts"

text \<open>
  The fixed window of a burst of calls. Its first call either resets the counter, and
  then opens a window that starts at its own time with the counter at 0, or it falls
  into the window that started at \<open>last_reset\<close>, with the counter as it stands. The burst
  is inside that one window when none of its calls is later than \<open>period\<close> after the
  start of the window, so that no later call resets the counter.
\<close>

definition window_start :: "Throttler \<Rightarrow> real list \<Rightarrow> real" where
  "window_start self ts =
     (case ts of
        [] \<Rightarrow> last_reset self
      | t # _ \<Rightarrow> if t - last_reset self > period self then t else last_reset self)"

definition window_calls :: "Throttler \<Rightarrow> real list \<Rightarrow> int" where
  "window_calls self ts =
     (case ts of
        [] \<Rightarrow> calls self
      | t # _ \<Rightarrow> if t - last_reset self > period self then 0 else calls self)"

definition one_window :: "Throttler \<Rightarrow> real list \<Rightarrow> bool" where
  "one_window self ts = list_all (\<lambda>t. t - window_start self ts \<le> period self) ts"

section \<open>Effects\<close>

text \<open>
  Everything a request does to the outside is a call of the trace: a query of the
  tracking source, a call of the Slack client, a \<^verbatim>\<open>time.sleep\<close>, a \<^verbatim>\<open>logging\<close> call, and a
  call of \<^verbatim>\<open>throttler.throttle()\<close> with its answer. (The two debugging \<^verbatim>\<open>print\<close>
  calls of \<^verbatim>\<open>webhook\<close> are left out.)
\<close>

datatype level = INFO | WARNING | ERROR

datatype call =
    FindOne string pyval           \<comment> \<open>\<^verbatim>\<open>find_one(kind, [["id", "is", id]], ...)\<close>\<close>
  | Find string string pyval       \<comment> \<open>\<^verbatim>\<open>find(kind, [["entity", "is", {type, id}]], ...)\<close>\<close>
  | LookupByEmail pyval            \<comment> \<open>\<^verbatim>\<open>client.users_lookupByEmail(email=...)\<close>\<close>
  | PostMessage pyval string       \<comment> \<open>\<^verbatim>\<open>client.chat_postMessage(channel=..., text=...)\<close>\<close>
  | Sleep nat
  | Log level string
  | Throttle bool                  \<comment> \<open>\<^verbatim>\<open>throttler.throttle()\<close> and what it returned\<close>

datatype exn =
    SlackApiError string string    \<comment> \<open>\<^verbatim>\<open>str(e)\<close> and \<^verbatim>\<open>e.response['error']\<close>\<close>
  | KeyError string                \<comment> \<open>the missing key\<close>
  | TypeError string               \<comment> \<open>\<^verbatim>\<open>str(e)\<close>\<close>
  | AttributeError string          \<comment> \<open>\<^verbatim>\<open>str(e)\<close>\<close>
  | OSError string                 \<comment> \<open>\<^verbatim>\<open>str(e)\<close>; a fault of the network\<close>

text \<open>\<^verbatim>\<open>f"{e!s}"\<close>; the string of a \<^verbatim>\<open>KeyError\<close> is the \<^verbatim>\<open>repr\<close> of its key.\<close>

fun exn_str :: "exn \<Rightarrow> string" where
  "exn_str (SlackApiError msg err) = msg"
| "exn_str (KeyError k) = [CHR 0x27] @ k @ [CHR 0x27]"
| "exn_str (TypeError msg) = msg"
| "exn_str (AttributeError msg) = msg"
| "exn_str (OSError msg) = msg"

text \<open>
  A computation returns a value or raises, and leaves the calls it made, in order.
\<close>

type_synonym 'a eff = "(exn + 'a) \<times> call list"

definition eret :: "'a \<Rightarrow> 'a eff" where
  "eret x = (Inr x, [])"

definition eraise :: "exn \<Rightarrow> 'a eff" where
  "eraise e = (Inl e, [])"

definition emit :: "call \<Rightarrow> unit eff" where
  "emit c = (Inr (), [c])"

definition ebind :: "'a eff \<Rightarrow> ('a \<Rightarrow> 'b eff) \<Rightarrow> 'b eff" where
  "ebind m f = (case m of
                  (Inl e, t) \<Rightarrow> (Inl e, t)
                | (Inr x, t) \<Rightarrow> (case f x of (r, t') \<Rightarrow> (r, t @ t')))"

definition ethen :: "unit eff \<Rightarrow> 'b eff \<Rightarrow> 'b eff" where
  "ethen m n = ebind m (\<lambda>_. n)"

text \<open>
  \<^verbatim>\<open>try: m except ...: h\<close>. The handler answers \<open>None\<close> for an exception its
  \<^verbatim>\<open>except\<close> clause does not name, which then goes on up.
\<close>

definition etry :: "'a eff \<Rightarrow> (exn \<Rightarrow> 'a eff option) \<Rightarrow> 'a eff" where
  "etry m h = (case m of
                 (Inr x, t) \<Rightarrow> (Inr x, t)
               | (Inl e, t) \<Rightarrow> (case h e of
                                 None \<Rightarrow> (Inl e, t)
                               | Some m' \<Rightarrow> (case m' of (r, t') \<Rightarrow> (r, t @ t'))))"

text \<open>\<^verbatim>\<open>for x in xs: body(x)\<close>; an exception in the body ends the loop.\<close>

fun for_each :: "'a list \<Rightarrow> ('a \<Rightarrow> unit eff) \<Rightarrow> unit eff" where
  "for_each [] body = eret ()"
| "for_each (x # xs) body = ethen (body x) (for_each xs body)"

definition log :: "level \<Rightarrow> string \<Rightarrow> unit eff" where
  "log l msg = emit (Log l msg)"

text \<open>What a trace says was done.\<close>

fun posts :: "call list \<Rightarrow> (pyval \<times> string) list" where
  "posts [] = []"
| "posts (PostMessage c t # cs) = (c, t) # posts cs"
| "posts (_ # cs) = posts cs"

fun lookups :: "call list \<Rightarrow> pyval list" where
  "lookups [] = []"
| "lookups (LookupByEmail e # cs) = e # lookups cs"
| "lookups (_ # cs) = lookups cs"

fun is_query :: "call \<Rightarrow> bool" where
  "is_query (FindOne k i) = True"
| "is_query (Find k t i) = True"
| "is_query _ = False"

fun is_throttle :: "call \<Rightarrow> bool" where
  "is_throttle (Throttle b) = True"
| "is_throttle _ = False"

text \<open>
  A trace is gated when each \<^verbatim>\<open>chat_postMessage\<close> in it has before it a
  \<^verbatim>\<open>throttle()\<close> call that returned \<^verbatim>\<open>True\<close>, the last \<^verbatim>\<open>throttle()\<close> call before the
  send and later than any earlier send. The flag \<open>ok\<close> says such a call is pending.
\<close>

fun gated_from :: "bool \<Rightarrow> call list \<Rightarrow> bool" where
  "gated_from ok [] = True"
| "gated_from ok (Throttle b # cs) = gated_from b cs"
| "gated_from ok (PostMessage c t # cs) = (ok \<and> gated_from False cs)"
| "gated_from ok (_ # cs) = gated_from ok cs"

definition gated :: "call list \<Rightarrow> bool" where
  "gated cs = gated_from False cs"

section \<open>The tracking source and the chat directory\<close>

text \<open>
  A record of the tracking source, as \<^verbatim>\<open>find_one\<close> and \<^verbatim>\<open>find\<close> return it, is a Python
  dictionary. A scalar field is \<open>None\<close> when the key is absent and \<open>Some v\<close> when it is
  there (\<open>Some PNone\<close> is a key whose value is \<^verbatim>\<open>None\<close>). An entity link is the dictionary
  \<^verbatim>\<open>{"type": ..., "id": ..., "name": ...}\<close>. A multi-entity field is the list of its links:
  where the code only tests the list for truth, an absent key, \<^verbatim>\<open>None\<close> and the empty list
  all are \<open>[]\<close>. A record that was found is never an empty dictionary, so it is truthy.
\<close>

record entity_link =
  link_type :: string
  link_id :: pyval
  link_name :: pyval

record shot_rec =
  shot_code :: "pyval option"                \<comment> \<open>\<^verbatim>\<open>"code"\<close>\<close>
  shot_project_name :: "pyval option"        \<comment> \<open>\<^verbatim>\<open>"project.Project.name"\<close>\<close>
  shot_sequence_code :: "pyval option"       \<comment> \<open>\<^verbatim>\<open>"sg_sequence.Sequence.code"\<close>\<close>

record asset_rec =
  asset_code :: "pyval option"
  asset_project_name :: "pyval option"

record version_rec =
  version_code :: "pyval option"
  version_project_name :: "pyval option"
  version_shot_code :: "pyval option"        \<comment> \<open>\<^verbatim>\<open>"sg_shot.Shot.code"\<close>\<close>

record user_rec =
  hu_email :: "pyval option"

record task_rec =
  task_assignees :: "entity_link list"
  task_step :: "pyval option"                \<comment> \<open>\<^verbatim>\<open>"step.Step.short_name"\<close>\<close>
  task_entity :: "entity_link option"        \<comment> \<open>\<open>None\<close>: absent or \<^verbatim>\<open>None\<close>\<close>

record note_rec =
  nt_content :: "pyval option"
  nt_links :: "entity_link list"
  nt_created_by_email :: "pyval option"
  nt_created_by_name :: "pyval option"
  nt_attachments :: "entity_link list option"   \<comment> \<open>\<open>None\<close>: the key is absent\<close>

record reply_rec =
  rp_content :: "pyval option"
  rp_note_content :: "pyval option"       \<comment> \<open>\<^verbatim>\<open>"note.Note.content"\<close>\<close>
  rp_note_links :: "entity_link list"     \<comment> \<open>\<^verbatim>\<open>"note.Note.note_links"\<close>\<close>
  rp_created_by_email :: "pyval option"

text \<open>
  \<^verbatim>\<open>"this_file"\<close> of an Attachment: \<^verbatim>\<open>None\<close>, or a dictionary that has a \<^verbatim>\<open>"url"\<close> or not.
\<close>

datatype file_field = FileNone | FileDict "pyval option"

record attachment_rec =
  this_file :: "file_field option"

text \<open>
  The Slack client returns the response's field the code reads, or raises
  \<^verbatim>\<open>SlackApiError\<close>, the failure of the client that the source names.
\<close>

datatype 'a slack_result = SlackOk 'a | SlackErr string string

text \<open>
  The world a request runs in: what each query of the tracking source answers and what
  each call of the Slack client does. It does not change while one request is handled.
\<close>

record world =
  sg_shot :: "pyval \<Rightarrow> shot_rec option"
  sg_asset :: "pyval \<Rightarrow> asset_rec option"
  sg_version :: "pyval \<Rightarrow> version_rec option"
  sg_user :: "pyval \<Rightarrow> user_rec option"
  sg_task :: "pyval \<Rightarrow> task_rec option"
  sg_tasks_of :: "string \<Rightarrow> pyval \<Rightarrow> task_rec list"
  sg_note :: "pyval \<Rightarrow> note_rec option"
  sg_reply :: "pyval \<Rightarrow> reply_rec option"
  sg_attachment :: "pyval \<Rightarrow> attachment_rec option"
  slack_user_by_email :: "pyval \<Rightarrow> pyval slack_result"    \<comment> \<open>\<^verbatim>\<open>response["user"]["id"]\<close>\<close>
  slack_post :: "pyval \<Rightarrow> string \<Rightarrow> string slack_result"  \<comment> \<open>\<^verbatim>\<open>response['ts']\<close>\<close>

definition find_one_Shot :: "world \<Rightarrow> pyval \<Rightarrow> shot_rec option eff" where
  "find_one_Shot w i = (Inr (sg_shot w i), [FindOne ''Shot'' i])"

definition find_one_Asset :: "world \<Rightarrow> pyval \<Rightarrow> asset_rec option eff" where
  "find_one_Asset w i = (Inr (sg_asset w i), [FindOne ''Asset'' i])"

definition find_one_Version :: "world \<Rightarrow> pyval \<Rightarrow> version_rec option eff" where
  "find_one_Version w i = (Inr (sg_version w i), [FindOne ''Version'' i])"

definition find_one_HumanUser :: "world \<Rightarrow> pyval \<Rightarrow> user_rec option eff" where
  "find_one_HumanUser w i = (Inr (sg_user w i), [FindOne ''HumanUser'' i])"

definition find_one_Task :: "world \<Rightarrow> pyval \<Rightarrow> task_rec option eff" where
  "find_one_Task w i = (Inr (sg_task w i), [FindOne ''Task'' i])"

definition find_one_Note :: "world \<Rightarrow> pyval \<Rightarrow> note_rec option eff" where
  "find_one_Note w i = (Inr (sg_note w i), [FindOne ''Note'' i])"

definition find_one_Reply :: "world \<Rightarrow> pyval \<Rightarrow> reply_rec option eff" where
  "find_one_Reply w i = (Inr (sg_reply w i), [FindOne ''Reply'' i])"

definition find_one_Attachment :: "world \<Rightarrow> pyval \<Rightarrow> attachment_rec option eff" where
  "find_one_Attachment w i = (Inr (sg_attachment w i), [FindOne ''Attachment'' i])"

definition find_Task :: "world \<Rightarrow> string \<Rightarrow> pyval \<Rightarrow> task_rec list eff" where
  "find_Task w ty i = (Inr (sg_tasks_of w ty i), [Find ''Task'' ty i])"

definition users_lookupByEmail :: "world \<Rightarrow> pyval \<Rightarrow> pyval eff" where
  "users_lookupByEmail w email =
     (case slack_user_by_email w email of
        SlackOk u \<Rightarrow> (Inr u, [LookupByEmail email])
      | SlackErr msg err \<Rightarrow> (Inl (SlackApiError msg err), [LookupByEmail email]))"

definition chat_postMessage :: "world \<Rightarrow> pyval \<Rightarrow> string \<Rightarrow> string eff" where
  "chat_postMessage w channel txt =
     (case slack_post w channel txt of
        SlackOk ts \<Rightarrow> (Inr ts, [PostMessage channel txt])
      | SlackErr msg err \<Rightarrow> (Inl (SlackApiError msg err), [PostMessage channel txt]))"

section \<open>Resolving recipients\<close>

text \<open>\<^verbatim>\<open>send_slack_message\<close>, lines 53-59.\<close>

definition send_slack_message :: "world \<Rightarrow> pyval \<Rightarrow> string \<Rightarrow> unit eff" where
  "send_slack_message w slack_user_id txt =
     etry (ebind (chat_postMessage w slack_user_id txt) (\<lambda>ts.
             log INFO (''Message sent successfully at '' @ ts @ '' to '' @ py_str slack_user_id)))
          (\<lambda>e. case e of
                  SlackApiError msg err \<Rightarrow> Some (log ERROR (''Error sending message: '' @ err))
                | _ \<Rightarrow> None)"

text \<open>\<^verbatim>\<open>get_shotgrid_user_email\<close>, lines 62-67.\<close>

definition get_shotgrid_user_email :: "world \<Rightarrow> pyval \<Rightarrow> pyval eff" where
  "get_shotgrid_user_email w user_id =
     ebind (find_one_HumanUser w user_id) (\<lambda>user.
       case user of
         None \<Rightarrow> eret PNone
       | Some u \<Rightarrow> (case hu_email u of None \<Rightarrow> eret PNone | Some email \<Rightarrow> eret email))"

text \<open>\<^verbatim>\<open>find_slack_user_by_email\<close>, lines 70-78.\<close>

definition find_slack_user_by_email :: "world \<Rightarrow> pyval \<Rightarrow> pyval eff" where
  "find_slack_user_by_email w email =
     etry (users_lookupByEmail w email)
          (\<lambda>e. case e of
                  SlackApiError msg err \<Rightarrow>
                    Some (ethen (log ERROR (''Error finding Slack user by email: '' @ err))
                                (eret PNone))
                | _ \<Rightarrow> None)"

text \<open>
  The dictionary \<^verbatim>\<open>assigned_users\<close>: pipeline step to the list of emails, its keys in the
  order of their first insertion, as a Python dictionary keeps them.
\<close>

type_synonym users_by_step = "(pyval \<times> pyval list) list"

text \<open>
  \<^verbatim>\<open>if pipeline_step not in assigned_users: assigned_users[pipeline_step] = []\<close> followed by
  \<^verbatim>\<open>assigned_users[pipeline_step].append(user_email)\<close>.
\<close>

fun dict_append :: "users_by_step \<Rightarrow> pyval \<Rightarrow> pyval \<Rightarrow> users_by_step" where
  "dict_append [] k v = [(k, [v])]"
| "dict_append ((k', vs) # d) k v =
     (if k' = k then (k', vs @ [v]) # d else (k', vs) # dict_append d k v)"

text \<open>
  The loops of lines 101-112, which lines 134-145 repeat word for word: the inner one over
  the assignees of one task, the outer one over the tasks. \<^verbatim>\<open>user_data["email"]\<close> raises
  \<^verbatim>\<open>KeyError\<close> when the record has no such key.
\<close>

fun collect_assignees ::
  "world \<Rightarrow> pyval \<Rightarrow> entity_link list \<Rightarrow> users_by_step \<Rightarrow> users_by_step eff" where
  "collect_assignees w pipeline_step [] assigned_users = eret assigned_users"
| "collect_assignees w pipeline_step (assignee # rest) assigned_users =
     ebind (find_one_HumanUser w (link_id assignee)) (\<lambda>user_data.
       case user_data of
         None \<Rightarrow> collect_assignees w pipeline_step rest assigned_users
       | Some u \<Rightarrow>
           (case hu_email u of
              None \<Rightarrow> eraise (KeyError ''email'')
            | Some email \<Rightarrow>
                collect_assignees w pipeline_step rest
                  (dict_append assigned_users pipeline_step email)))"

fun collect_tasks :: "world \<Rightarrow> task_rec list \<Rightarrow> users_by_step \<Rightarrow> users_by_step eff" where
  "collect_tasks w [] assigned_users = eret assigned_users"
| "collect_tasks w (task # rest) assigned_users =
     ebind (collect_assignees w (get_d (task_step task) (PStr ''Unknown Step''))
              (task_assignees task) assigned_users)
           (\<lambda>assigned_users'. collect_tasks w rest assigned_users')"

text \<open>
  \<^verbatim>\<open>get_assigned_users_from_tasks\<close>, lines 81-114. The first component is \<open>None\<close> for
  Python's \<^verbatim>\<open>None\<close> and \<open>Some d\<close> for the dictionary \<open>d\<close>.
\<close>

definition get_assigned_users_from_tasks ::
  "world \<Rightarrow> pyval \<Rightarrow> (users_by_step option \<times> pyval \<times> pyval \<times> pyval) eff" where
  "get_assigned_users_from_tasks w shot_id =
     ebind (find_one_Shot w shot_id) (\<lambda>shot_details.
       case shot_details of
         None \<Rightarrow>
           ethen (log ERROR (''Could not retrieve shot details for Shot ID: '' @ py_str shot_id))
                 (eret (None, PNone, PNone, PNone))
       | Some sd \<Rightarrow>
           (let shot_name = get_d (shot_code sd) (PStr ''Unknown Shot'');
                sequence_name = get_d (shot_sequence_code sd) (PStr ''Unknown Sequence'');
                project_name = get_d (shot_project_name sd) (PStr ''Unknown Project'')
            in ebind (find_Task w ''Shot'' shot_id) (\<lambda>tasks.
                 ebind (collect_tasks w tasks []) (\<lambda>assigned_users.
                   eret (Some assigned_users, shot_name, sequence_name, project_name)))))"

text \<open>\<^verbatim>\<open>get_assigned_users_from_asset_tasks\<close>, lines 117-147.\<close>

definition get_assigned_users_from_asset_tasks ::
  "world \<Rightarrow> pyval \<Rightarrow> (users_by_step option \<times> pyval \<times> pyval) eff" where
  "get_assigned_users_from_asset_tasks w asset_id =
     ebind (find_one_Asset w asset_id) (\<lambda>asset_details.
       case asset_details of
         None \<Rightarrow>
           ethen (log ERROR (''Could not retrieve asset details for Asset ID: '' @ py_str asset_id))
                 (eret (None, PNone, PNone))
       | Some ad \<Rightarrow>
           (let asset_name = get_d (asset_code ad) (PStr ''Unknown Asset'');
                project_name = get_d (asset_project_name ad) (PStr ''Unknown Project'')
            in ebind (find_Task w ''Asset'' asset_id) (\<lambda>tasks.
                 ebind (collect_tasks w tasks []) (\<lambda>assigned_users.
                   eret (Some assigned_users, asset_name, project_name)))))"

text \<open>The truth of \<^verbatim>\<open>assigned_users_by_step\<close>: neither \<^verbatim>\<open>None\<close> nor the empty dictionary.\<close>

fun dict_truthy :: "users_by_step option \<Rightarrow> bool" where
  "dict_truthy None = False"
| "dict_truthy (Some d) = (d \<noteq> [])"

text \<open>
  \<^verbatim>\<open>get_assigned_users_from_version_tasks\<close>, lines 150-177. Line 171 assigns
  \<^verbatim>\<open>project_name\<close> again, from the shot.
\<close>

definition get_assigned_users_from_version_tasks ::
  "world \<Rightarrow> pyval \<Rightarrow> (users_by_step option \<times> pyval \<times> pyval) eff" where
  "get_assigned_users_from_version_tasks w version_id =
     ebind (find_one_Version w version_id) (\<lambda>version_details.
       case version_details of
         None \<Rightarrow>
           ethen (log ERROR (''Could not retrieve version details for Version ID: ''
                             @ py_str version_id))
                 (eret (None, PNone, PNone))
       | Some vd \<Rightarrow>
           (let version_name = get_d (version_code vd) (PStr ''Unknown Version'');
                project_name = get_d (version_project_name vd) (PStr ''Unknown Project'');
                shot_id = get_d (version_shot_code vd) PNone
            in if \<not> truthy shot_id then
                 ethen (log WARNING (''No shot linked to Version ID: '' @ py_str version_id))
                       (eret (Some [], version_name, project_name))
               else
                 ebind (get_assigned_users_from_tasks w shot_id)
                   (\<lambda>(assigned_users_by_step, shot_name, sequence_name, project_name).
                     if \<not> dict_truthy assigned_users_by_step then
                       ethen (log WARNING (''No assigned users found for Shot ID: ''
                                           @ py_str shot_id))
                             (eret (Some [], version_name, project_name))
                     else eret (assigned_users_by_step, version_name, project_name))))"

text \<open>\<^verbatim>\<open>get_attachments_ids_from_note_id\<close>, lines 180-205.\<close>

definition get_attachments_ids_from_note_id :: "world \<Rightarrow> pyval \<Rightarrow> pyval list eff" where
  "get_attachments_ids_from_note_id w node_id =
     ebind (find_one_Note w node_id) (\<lambda>note.
       case (case note of None \<Rightarrow> None | Some n \<Rightarrow> nt_attachments n) of
         None \<Rightarrow>
           ethen (log WARNING (''No attachments found for Note ID: '' @ py_str node_id))
                 (eret [])
       | Some attachments \<Rightarrow> eret (map link_id attachments))"

text \<open>
  \<^verbatim>\<open>get_file_url_from_attachment_id\<close>, lines 208-231. \<^verbatim>\<open>attachment["this_file"]["url"]\<close>
  raises \<^verbatim>\<open>TypeError\<close> on \<^verbatim>\<open>None\<close> and \<^verbatim>\<open>KeyError\<close> on a dictionary without the key.
\<close>

definition get_file_url_from_attachment_id :: "world \<Rightarrow> pyval \<Rightarrow> pyval eff" where
  "get_file_url_from_attachment_id w attachment_id =
     ebind (find_one_Attachment w attachment_id) (\<lambda>attachment.
       case (case attachment of None \<Rightarrow> None | Some a \<Rightarrow> this_file a) of
         Some FileNone \<Rightarrow> eraise (TypeError '''NoneType' object is not subscriptable'')
       | Some (FileDict None) \<Rightarrow> eraise (KeyError ''url'')
       | Some (FileDict (Some url)) \<Rightarrow> eret url
       | None \<Rightarrow>
           ethen (log WARNING (''Attachment ID '' @ py_str attachment_id @ '' not found.''))
                 (eret (PStr '''')))"

section \<open>Delivery\<close>

text \<open>\<^verbatim>\<open>send_message_to_assigned_users\<close>, lines 234-249.\<close>

definition send_message_to_assigned_users ::
  "world \<Rightarrow> users_by_step \<Rightarrow> pyval \<Rightarrow> pyval \<Rightarrow> pyval \<Rightarrow> string \<Rightarrow> unit eff" where
  "send_message_to_assigned_users w assigned_users_by_step shot_name sequence_name project_name
                                  message_content =
     for_each assigned_users_by_step (\<lambda>(step, users).
       for_each users (\<lambda>email.
         ebind (find_slack_user_by_email w email) (\<lambda>slack_user_id.
           if truthy slack_user_id then
             etry (ethen (send_slack_message w slack_user_id
                            (''In '' @ py_str project_name @ ''|'' @ py_str sequence_name @ ''|''
                             @ py_str shot_name @ ''|'' @ py_str step @ ''\<newline>''
                             @ message_content))
                         (log INFO (''Message sent to '' @ py_str email @ '' (Slack ID: ''
                                    @ py_str slack_user_id @ '') for step '' @ py_str step)))
                  (\<lambda>e. case e of
                          SlackApiError msg err \<Rightarrow>
                            Some (log ERROR (''Error sending message to '' @ py_str email
                                             @ '': '' @ err))
                        | _ \<Rightarrow> None)
           else log WARNING (''Could not find Slack user for email: '' @ py_str email))))"

section \<open>The handlers\<close>

text \<open>
  The event envelope, \<^verbatim>\<open>request.json["data"]\<close>. A scalar field is \<open>PNone\<close> when the key is
  absent, which \<^verbatim>\<open>.get(key)\<close> does not tell from a JSON \<^verbatim>\<open>null\<close>; \<^verbatim>\<open>added\<close> and \<^verbatim>\<open>removed\<close>
  are lists of entity links, empty when absent.
\<close>

record envelope =
  entity_type :: pyval
  entity_id :: pyval
  operation :: pyval
  event_type :: pyval
  attribute_name :: pyval
  old_value :: pyval
  new_value :: pyval
  added :: "entity_link list"
  removed :: "entity_link list"

text \<open>The answer of a handler: the body and the HTTP status.\<close>

type_synonym response = "string \<times> nat"

text \<open>
  The module binds the global \<^verbatim>\<open>STATUS_DESCRIPTIONS\<close> twice, at line 287 and again at
  line 470. A handler reads the global when it is called, and requests are served only
  after the module has run to its end (\<^verbatim>\<open>app.run\<close>, line 562): the name then holds the
  value bound last.
\<close>

definition STATUS_DESCRIPTIONS_287 :: "(string \<times> string) list" where
  "STATUS_DESCRIPTIONS_287 =
     [(''wtg'', ''Waiting to Start''),
      (''rdy'', ''Ready to Start''),
      (''ip'', ''In Progress''),
      (''qc'', ''Quality Control''),
      (''hld'', ''On Hold''),
      (''omt'', ''Omit''),
      (''pla'', ''Plate''),
      (''extrev'', ''Pending External Review''),
      (''prop'', ''Proposed Final''),
      (''rfd'', ''Ready for Delivery''),
      (''fin'', ''Final''),
      (''rev'', ''Pending Review''),
      (''rc'', ''Requires Changes'')]"

definition STATUS_DESCRIPTIONS_470 :: "(string \<times> string) list" where
  "STATUS_DESCRIPTIONS_470 =
     [(''wtg'', ''Waiting to Start''),
      (''rdy'', ''Ready to Start''),
      (''ip'', ''In Progress''),
      (''hld'', ''On Hold''),
      (''omt'', ''Omit''),
      (''ia'', ''Internally Approved''),
      (''rev'', ''Pending Review''),
      (''nupt'', ''New update''),
      (''rc'', ''Requires Changes''),
      (''lib'', ''Library''),
      (''prop'', ''Proposed Final''),
      (''qc'', ''Quality Control''),
      (''fin'', ''Final'')]"

definition STATUS_DESCRIPTIONS :: "(string \<times> string) list" where
  "STATUS_DESCRIPTIONS = last [STATUS_DESCRIPTIONS_287, STATUS_DESCRIPTIONS_470]"

text \<open>\<^verbatim>\<open>table.get(value, value)\<close>: the keys of a table are strings.\<close>

fun status_get :: "(string \<times> string) list \<Rightarrow> pyval \<Rightarrow> pyval" where
  "status_get tbl (PStr s) = (case map_of tbl s of Some l \<Rightarrow> PStr l | None \<Rightarrow> PStr s)"
| "status_get tbl v = v"

text \<open>A string between apostrophes.\<close>

definition quoted :: "string \<Rightarrow> string" where
  "quoted s = [CHR 0x27] @ s @ [CHR 0x27]"

text \<open>\<^verbatim>\<open>handle_shot_event\<close>, lines 304-325.\<close>

definition handle_shot_event :: "world \<Rightarrow> envelope \<Rightarrow> response eff" where
  "handle_shot_event w event_data =
     (let old_description = status_get STATUS_DESCRIPTIONS (old_value event_data);
          new_description = status_get STATUS_DESCRIPTIONS (new_value event_data);
          message_content = ''A shot status has been changed from ''
                            @ quoted (py_str old_description) @ '' to ''
                            @ quoted (py_str new_description) @ ''.''
      in ebind (get_assigned_users_from_tasks w (entity_id event_data))
           (\<lambda>(assigned_users_by_step, shot_name, sequence_name, project_name).
             if dict_truthy assigned_users_by_step then
               ethen (for_each (get_d assigned_users_by_step []) (\<lambda>(step, users).
                        send_message_to_assigned_users w [(step, users)] shot_name sequence_name
                          project_name message_content))
                     (eret (''success'', 200))
             else
               ethen (log WARNING (''No assigned users found for Shot ID: ''
                                   @ py_str (entity_id event_data)))
                     (eret (''No assigned users found'', 404))))"

text \<open>The loop of lines 363-367: the first attachment with a truthy URL wins.\<close>

fun first_file_url :: "world \<Rightarrow> pyval list \<Rightarrow> pyval eff" where
  "first_file_url w [] = eret (PStr '''')"
| "first_file_url w (attachment_id # rest) =
     ebind (get_file_url_from_attachment_id w attachment_id) (\<lambda>file_url.
       if truthy file_url then eret file_url else first_file_url w rest)"

text \<open>\<^verbatim>\<open>handle_note_event\<close>, lines 328-404.\<close>

definition handle_note_event :: "world \<Rightarrow> envelope \<Rightarrow> response eff" where
  "handle_note_event w event_data =
     (let note_id = entity_id event_data in
      ethen (log INFO (''New note created with ID: '' @ py_str note_id))
     (ebind (find_one_Note w note_id) (\<lambda>note_details.
        case note_details of
          None \<Rightarrow>
            ethen (log ERROR (''Could not retrieve details for Note ID: '' @ py_str note_id))
                  (eret (''Note details not found'', 404))
        | Some nd \<Rightarrow>
           (let note_content = get_d (nt_content nd) (PStr ''No content'');
                created_by_name = get_d (nt_created_by_name nd) (PStr ''unknown user'')
            in case nt_links nd of
                 [] \<Rightarrow>
                   ethen (log WARNING (''No linked entities found for Note ID: '' @ py_str note_id))
                         (eret (''No linked entities found'', 404))
               | linked_entity # _ \<Rightarrow>
                  (let linked_entity_type = link_type linked_entity;
                       linked_entity_id = link_id linked_entity;
                       message_content0 = py_str created_by_name @ '' added a note:\<newline>''
                                          @ py_str note_content
                   in ethen (emit (Sleep 3))
                     (ebind (get_attachments_ids_from_note_id w note_id) (\<lambda>attachment_ids.
                      ebind (first_file_url w attachment_ids) (\<lambda>annotated_frame_url.
                       (let message_content =
                              (if truthy annotated_frame_url
                               then message_content0 @ ''\<newline>Annotated Frame: ''
                                    @ py_str annotated_frame_url
                               else message_content0)
                        in if linked_entity_type = ''Shot'' then
                             ebind (get_assigned_users_from_tasks w linked_entity_id)
                               (\<lambda>(assigned_users_by_step, shot_name, sequence_name, project_name).
                                 if dict_truthy assigned_users_by_step then
                                   ethen (for_each (get_d assigned_users_by_step [])
                                            (\<lambda>(step, users).
                                              send_message_to_assigned_users w [(step, users)]
                                                shot_name sequence_name project_name
                                                message_content))
                                         (eret (''success'', 200))
                                 else
                                   ethen (log WARNING
                                            (''No assigned users found for linked Shot ID: ''
                                             @ py_str linked_entity_id))
                                         (eret (''No assigned users found for linked Shot'', 404)))
                           else if linked_entity_type = ''Asset'' then
                             ebind (get_assigned_users_from_asset_tasks w linked_entity_id)
                               (\<lambda>(assigned_users_by_step, asset_name, project_name).
                                 if dict_truthy assigned_users_by_step then
                                   ethen (for_each (get_d assigned_users_by_step [])
                                            (\<lambda>(step, users).
                                              send_message_to_assigned_users w [(step, users)]
                                                asset_name (PStr ''N/A'') project_name
                                                message_content))
                                         (eret (''success'', 200))
                                 else
                                   ethen (log WARNING
                                            (''No assigned users found for linked Asset ID: ''
                                             @ py_str linked_entity_id))
                                         (eret (''No assigned users found for linked Asset'', 404)))
                           else if linked_entity_type = ''Version''
                                   \<or> linked_entity_type = ''Note, Shotgun_Note_Change''
                                   \<or> linked_entity_type = ''Playlist'' then
                             ebind (get_assigned_users_from_version_tasks w linked_entity_id)
                               (\<lambda>(assigned_users_by_step, version_name, project_name).
                                 if dict_truthy assigned_users_by_step then
                                   ethen (for_each (get_d assigned_users_by_step [])
                                            (\<lambda>(step, users).
                                              send_message_to_assigned_users w [(step, users)]
                                                version_name (PStr ''N/A'') project_name
                                                message_content))
                                         (eret (''success'', 200))
                                 else
                                   ethen (log WARNING
                                            (''No assigned users found for linked Version ID: ''
                                             @ py_str linked_entity_id))
                                         (eret (''No assigned users found for linked Version'',
                                                404)))
                           else
                             ethen (log WARNING (''Unsupported linked entity type: ''
                                                 @ linked_entity_type @ '' for Note ID: ''
                                                 @ py_str note_id))
                                   (eret (''Unsupported linked entity type'', 400)))))))))))"

text \<open>
  \<^verbatim>\<open>handle_task_assignment_event\<close>, lines 407-467. Line 435 calls \<^verbatim>\<open>.get\<close> on the result of
  \<^verbatim>\<open>find_one\<close> unchecked: on \<^verbatim>\<open>None\<close> it raises \<^verbatim>\<open>AttributeError\<close>.
\<close>

definition handle_task_assignment_event :: "world \<Rightarrow> envelope \<Rightarrow> response eff" where
  "handle_task_assignment_event w event_data =
     (let task_id = entity_id event_data in
      if attribute_name event_data \<noteq> PStr ''task_assignees'' then
        ethen (log INFO (''Change in Task ID '' @ py_str task_id
                         @ '' is not related to task assignments.''))
              (eret (''Not a task assignment event'', 200))
      else
        (let added_assignees = added event_data;
             removed_assignees = removed event_data
         in ebind (find_one_Task w task_id) (\<lambda>task_details.
              case task_details of
                None \<Rightarrow>
                  ethen (log ERROR (''Could not retrieve details for Task ID: '' @ py_str task_id))
                        (eret (''Task details not found'', 404))
              | Some td \<Rightarrow>
                 (let step_name = get_d (task_step td) (PStr ''Unknown Step'')
                  in case (case task_entity td of
                             None \<Rightarrow> None
                           | Some l \<Rightarrow> if link_type l = ''Shot'' then Some l else None) of
                       None \<Rightarrow>
                         ethen (log INFO (''Task '' @ py_str task_id
                                          @ '' is not linked to a Shot.''))
                               (eret (''Not linked to a Shot'', 200))
                     | Some linked_shot \<Rightarrow>
                        (let shot_id = link_id linked_shot;
                             shot_name = link_name linked_shot
                         in ebind (find_one_Shot w shot_id) (\<lambda>shot_details.
                              case shot_details of
                                None \<Rightarrow>
                                  eraise (AttributeError (quoted ''NoneType''
                                            @ '' object has no attribute '' @ quoted ''get''))
                              | Some sd \<Rightarrow>
                                 (let project_name =
                                        get_d (shot_project_name sd) (PStr ''Unknown Project'');
                                      sequence_name =
                                        get_d (shot_sequence_code sd) (PStr ''Unknown Sequence'')
                                  in ethen (for_each added_assignees (\<lambda>assignee.
                                       ebind (get_shotgrid_user_email w (link_id assignee))
                                         (\<lambda>user_email.
                                           if truthy user_email then
                                             ebind (find_slack_user_by_email w user_email)
                                               (\<lambda>slack_user_id.
                                                 if truthy slack_user_id then
                                                   send_slack_message w slack_user_id
                                                     (''In '' @ py_str project_name @ ''|''
                                                      @ py_str sequence_name @ ''|''
                                                      @ py_str shot_name @ ''|''
                                                      @ py_str step_name @ ''\<newline>''
                                                      @ ''You have been assigned to a task.'')
                                                 else
                                                   log WARNING (''Slack user not found for email: ''
                                                                @ py_str user_email))
                                           else eret ())))
                                    (ethen (for_each removed_assignees (\<lambda>removed_assignee.
                                       ebind (get_shotgrid_user_email w (link_id removed_assignee))
                                         (\<lambda>user_email.
                                           if truthy user_email then
                                             ebind (find_slack_user_by_email w user_email)
                                               (\<lambda>slack_user_id.
                                                 if truthy slack_user_id then
                                                   send_slack_message w slack_user_id
                                                     (''In '' @ py_str project_name @ ''|''
                                                      @ py_str sequence_name @ ''|''
                                                      @ py_str shot_name @ ''|''
                                                      @ py_str step_name @ ''\<newline>''
                                                      @ ''You have been removed from a task.'')
                                                 else
                                                   log WARNING (''Slack user not found for email: ''
                                                                @ py_str user_email))
                                           else eret ())))
                                    (eret (''success'', 200))))))))))"

text \<open>\<^verbatim>\<open>handle_asset_event\<close>, lines 487-509.\<close>

definition handle_asset_event :: "world \<Rightarrow> envelope \<Rightarrow> response eff" where
  "handle_asset_event w event_data =
     (let old_description = status_get STATUS_DESCRIPTIONS (old_value event_data);
          new_description = status_get STATUS_DESCRIPTIONS (new_value event_data);
          message_content = ''An asset's status has been changed from ''
                            @ quoted (py_str old_description) @ '' to ''
                            @ quoted (py_str new_description) @ ''.''
      in ebind (get_assigned_users_from_asset_tasks w (entity_id event_data))
           (\<lambda>(assigned_users_by_step, asset_name, project_name).
             if dict_truthy assigned_users_by_step then
               ethen (for_each (get_d assigned_users_by_step []) (\<lambda>(step, users).
                        send_message_to_assigned_users w [(step, users)] asset_name (PStr ''N/A'')
                          project_name message_content))
              (ethen (log INFO (''Notification sent for Asset ID: ''
                                @ py_str (entity_id event_data)))
                     (eret (''success'', 200)))
             else
               ethen (log WARNING (''No assigned users found for Asset ID: ''
                                   @ py_str (entity_id event_data)))
                     (eret (''No assigned users found'', 404))))"

text \<open>\<^verbatim>\<open>handle_reply_event\<close>, lines 512-558.\<close>

definition handle_reply_event :: "world \<Rightarrow> envelope \<Rightarrow> response eff" where
  "handle_reply_event w event_data =
     (let reply_id = entity_id event_data in
      ethen (log INFO (''New reply created with ID: '' @ py_str reply_id))
     (ebind (find_one_Reply w reply_id) (\<lambda>reply_details.
        case reply_details of
          None \<Rightarrow>
            ethen (log ERROR (''Could not retrieve details for Reply ID: '' @ py_str reply_id))
                  (eret (''Reply details not found'', 404))
        | Some rd \<Rightarrow>
           (let reply_content = get_d (rp_content rd) (PStr ''No content'');
                note_content = get_d (rp_note_content rd) (PStr ''No associated note content'');
                note_links = rp_note_links rd;
                created_by_email = get_d (rp_created_by_email rd) (PStr ''unknown'')
            in ebind (if truthy created_by_email
                      then find_slack_user_by_email w created_by_email
                      else eret PNone) (\<lambda>slack_user_id.
                 case (case note_links of
                         [] \<Rightarrow> None
                       | l # _ \<Rightarrow> if link_type l = ''Shot'' then Some l else None) of
                   Some linked_entity \<Rightarrow>
                     (let linked_shot_id = link_id linked_entity
                      in ebind (get_assigned_users_from_tasks w linked_shot_id)
                           (\<lambda>(assigned_users_by_step, shot_name, sequence_name, project_name).
                             if dict_truthy assigned_users_by_step then
                               ethen (send_message_to_assigned_users w
                                        (get_d assigned_users_by_step [])
                                        shot_name sequence_name project_name
                                        (''A new Reply has been created:\<newline>''
                                         @ py_str reply_content @ ''\<newline>''
                                         @ ''Related Note: '' @ py_str note_content))
                                     (eret (''success'', 200))
                             else
                               ethen (log WARNING
                                        (''No assigned users found for linked Shot ID: ''
                                         @ py_str linked_shot_id))
                                     (eret (''No assigned users found for linked entity'', 404))))
                 | None \<Rightarrow>
                     if truthy slack_user_id then
                       ethen (send_slack_message w slack_user_id
                                (''A new Reply has been created by you:\<newline>''
                                 @ py_str reply_content @ ''\<newline>''
                                 @ ''Related Note: '' @ py_str note_content))
                             (eret (''success'', 200))
                     else
                       ethen (log WARNING (''No linked entities or Slack user found for Reply ID: ''
                                           @ py_str reply_id))
                             (eret (''No users found for notification'', 404)))))))"

section \<open>The webhook\<close>

text \<open>
  \<^verbatim>\<open>webhook\<close>, lines 252-284. The route takes POST only. The request's JSON is \<open>None\<close>
  when it is missing or falsy and \<open>Some event_data\<close> otherwise. The \<^verbatim>\<open>try\<close> turns every
  exception of a handler into the 500 answer.
\<close>

definition webhook :: "world \<Rightarrow> envelope option \<Rightarrow> response eff" where
  "webhook w request_json =
     (case request_json of
        None \<Rightarrow>
          ethen (log ERROR ''No JSON received or invalid data.'')
                (eret (''Invalid data format'', 400))
      | Some event_data \<Rightarrow>
          etry
            (if entity_type event_data = PStr ''Shot'' then
               handle_shot_event w event_data
             else if entity_type event_data = PStr ''Note''
                     \<and> event_type event_data = PStr ''Shotgun_Note_New''
                     \<and> operation event_data = PStr ''create'' then
               handle_note_event w event_data
             else if entity_type event_data = PStr ''Reply''
                     \<and> event_type event_data = PStr ''Shotgun_Reply_New''
                     \<and> operation event_data = PStr ''create'' then
               handle_reply_event w event_data
             else if entity_type event_data = PStr ''Task''
                     \<and> event_type event_data = PStr ''Shotgun_Task_Change''
                     \<and> operation event_data = PStr ''update'' then
               handle_task_assignment_event w event_data
             else
               ethen (log WARNING (''Unsupported entity type or event: ''
                                   @ py_str (entity_type event_data) @ '', ''
                                   @ py_str (event_type event_data)))
                     (eret (''Entity type or event not supported'', 400)))
            (\<lambda>e. Some (ethen (log ERROR (''Error processing the request: '' @ exn_str e))
                              (eret (''Error processing data'', 500)))))"

text \<open>A handler's answer and its trace.\<close>

definition response_of :: "'a eff \<Rightarrow> 'a option" where
  "response_of m = (case fst m of Inl e \<Rightarrow> None | Inr r \<Rightarrow> Some r)"

definition trace_of :: "'a eff \<Rightarrow> call list" where
  "trace_of m = snd m"

section \<open>The Slack client in general\<close>

text \<open>
  The world above takes it that a call of the Slack client fails with \<^verbatim>\<open>SlackApiError\<close> or
  not at all. In general a call of the client returns the field of the response that the
  code reads, or raises an exception: \<^verbatim>\<open>SlackApiError\<close> when Slack rejects the request, and
  another one (an \<^verbatim>\<open>OSError\<close>) when the network fails.
\<close>

record client =
  lookupByEmail :: "pyval \<Rightarrow> exn + pyval"          \<comment> \<open>\<^verbatim>\<open>response["user"]["id"]\<close>\<close>
  postMessage :: "pyval \<Rightarrow> string \<Rightarrow> exn + string"  \<comment> \<open>\<^verbatim>\<open>response['ts']\<close>\<close>

definition users_lookupByEmail_on :: "client \<Rightarrow> pyval \<Rightarrow> pyval eff" where
  "users_lookupByEmail_on c email = (lookupByEmail c email, [LookupByEmail email])"

definition chat_postMessage_on :: "client \<Rightarrow> pyval \<Rightarrow> string \<Rightarrow> string eff" where
  "chat_postMessage_on c channel txt = (postMessage c channel txt, [PostMessage channel txt])"

text \<open>
  \<^verbatim>\<open>send_slack_message\<close>, \<^verbatim>\<open>find_slack_user_by_email\<close> and \<^verbatim>\<open>send_message_to_assigned_users\<close>
  (lines 53-59, 70-78 and 234-249) over such a client. Each \<^verbatim>\<open>except\<close> clause names
  \<^verbatim>\<open>SlackApiError\<close> and lets every other exception through.
\<close>

definition send_slack_message_on :: "client \<Rightarrow> pyval \<Rightarrow> string \<Rightarrow> unit eff" where
  "send_slack_message_on c slack_user_id txt =
     etry (ebind (chat_postMessage_on c slack_user_id txt) (\<lambda>ts.
             log INFO (''Message sent successfully at '' @ ts @ '' to '' @ py_str slack_user_id)))
          (\<lambda>e. case e of
                  SlackApiError msg err \<Rightarrow> Some (log ERROR (''Error sending message: '' @ err))
                | _ \<Rightarrow> None)"

definition find_slack_user_by_email_on :: "client \<Rightarrow> pyval \<Rightarrow> pyval eff" where
  "find_slack_user_by_email_on c email =
     etry (users_lookupByEmail_on c email)
          (\<lambda>e. case e of
                  SlackApiError msg err \<Rightarrow>
                    Some (ethen (log ERROR (''Error finding Slack user by email: '' @ err))
                                (eret PNone))
                | _ \<Rightarrow> None)"

definition send_message_to_assigned_users_on ::
  "client \<Rightarrow> users_by_step \<Rightarrow> pyval \<Rightarrow> pyval \<Rightarrow> pyval \<Rightarrow> string \<Rightarrow> unit eff" where
  "send_message_to_assigned_users_on c assigned_users_by_step shot_name sequence_name
                                     project_name message_content =
     for_each assigned_users_by_step (\<lambda>(step, users).
       for_each users (\<lambda>email.
         ebind (find_slack_user_by_email_on c email) (\<lambda>slack_user_id.
           if truthy slack_user_id then
             etry (ethen (send_slack_message_on c slack_user_id
                            (''In '' @ py_str project_name @ ''|'' @ py_str sequence_name @ ''|''
                             @ py_str shot_name @ ''|'' @ py_str step @ ''\<newline>''
                             @ message_content))
                         (log INFO (''Message sent to '' @ py_str email @ '' (Slack ID: ''
                                    @ py_str slack_user_id @ '') for step '' @ py_str step)))
                  (\<lambda>e. case e of
                          SlackApiError msg err \<Rightarrow>
                            Some (log ERROR (''Error sending message to '' @ py_str email
                                             @ '': '' @ err))
                        | _ \<Rightarrow> None)
           else log WARNING (''Could not find Slack user for email: '' @ py_str email))))"

text \<open>The client of a world: its only failure is \<^verbatim>\<open>SlackApiError\<close>.\<close>

definition slack_client :: "world \<Rightarrow> client" where
  "slack_client w =
     \<lparr>lookupByEmail = (\<lambda>email. case slack_user_by_email w email of
                                  SlackOk u \<Rightarrow> Inr u
                                | SlackErr msg err \<Rightarrow> Inl (SlackApiError msg err)),
      postMessage = (\<lambda>channel txt. case slack_post w channel txt of
                                      SlackOk ts \<Rightarrow> Inr ts
                                    | SlackErr msg err \<Rightarrow> Inl (SlackApiError msg err))\<rparr>"

section \<open>Notions the properties are stated with\<close>

text \<open>The prefix of line 242 in front of a message.\<close>

definition personalized :: "pyval \<Rightarrow> pyval \<Rightarrow> pyval \<Rightarrow> pyval \<Rightarrow> string \<Rightarrow> string" where
  "personalized project_name sequence_name shot_name step message_content =
     ''In '' @ py_str project_name @ ''|'' @ py_str sequence_name @ ''|'' @ py_str shot_name
     @ ''|'' @ py_str step @ ''\<newline>'' @ message_content"

text \<open>
  The chat identity of an email: the id the directory answers, when it answers one and
  the id is truthy.
\<close>

definition chat_identity :: "world \<Rightarrow> pyval \<Rightarrow> pyval option" where
  "chat_identity w email =
     (case slack_user_by_email w email of
        SlackOk u \<Rightarrow> (if truthy u then Some u else None)
      | SlackErr msg err \<Rightarrow> None)"

text \<open>
  One message for each entry (step, email) of a recipient set whose email has a chat
  identity, in the order of the dictionary.
\<close>

definition deliveries ::
  "world \<Rightarrow> users_by_step \<Rightarrow> pyval \<Rightarrow> pyval \<Rightarrow> pyval \<Rightarrow> string \<Rightarrow> (pyval \<times> string) list" where
  "deliveries w assigned_users_by_step shot_name sequence_name project_name message_content =
     concat (map (\<lambda>(step, users).
                    List.map_filter
                      (\<lambda>email. map_option
                         (\<lambda>u. (u, personalized project_name sequence_name shot_name step
                                     message_content))
                         (chat_identity w email))
                      users)
                 assigned_users_by_step)"

text \<open>The emails of a recipient set, entry by entry, and those without a chat identity.\<close>

definition all_emails :: "users_by_step \<Rightarrow> pyval list" where
  "all_emails assigned_users_by_step = concat (map snd assigned_users_by_step)"

definition skipped :: "world \<Rightarrow> users_by_step \<Rightarrow> pyval list" where
  "skipped w assigned_users_by_step =
     filter (\<lambda>email. chat_identity w email = None) (all_emails assigned_users_by_step)"

fun warnings :: "call list \<Rightarrow> string list" where
  "warnings [] = []"
| "warnings (Log WARNING m # cs) = m # warnings cs"
| "warnings (_ # cs) = warnings cs"

text \<open>The messages a trace sends to the chat identity of an email.\<close>

definition received :: "world \<Rightarrow> call list \<Rightarrow> pyval \<Rightarrow> string list" where
  "received w tr email =
     map snd (filter (\<lambda>(c, t). chat_identity w email = Some c) (posts tr))"





text \<open>
  The chat identity of an email with a client in general, and the messages and the
  emails without an identity that go with it.
\<close>

definition client_identity :: "client \<Rightarrow> pyval \<Rightarrow> pyval option" where
  "client_identity c email =
     (case lookupByEmail c email of
        Inr u \<Rightarrow> (if truthy u then Some u else None)
      | Inl e \<Rightarrow> None)"

definition deliveries_on ::
  "client \<Rightarrow> users_by_step \<Rightarrow> pyval \<Rightarrow> pyval \<Rightarrow> pyval \<Rightarrow> string \<Rightarrow> (pyval \<times> string) list" where
  "deliveries_on c assigned_users_by_step shot_name sequence_name project_name message_content =
     concat (map (\<lambda>(step, users).
                    List.map_filter
                      (\<lambda>email. map_option
                         (\<lambda>u. (u, personalized project_name sequence_name shot_name step
                                     message_content))
                         (client_identity c email))
                      users)
                 assigned_users_by_step)"

definition skipped_on :: "client \<Rightarrow> users_by_step \<Rightarrow> pyval list" where
  "skipped_on c assigned_users_by_step =
     filter (\<lambda>email. client_identity c email = None) (all_emails assigned_users_by_step)"

text \<open>
  A call of the client answers when it returns or raises \<^verbatim>\<open>SlackApiError\<close>. The client
  answers a recipient set when it answers the lookup of every email of the set and the
  send to every chat identity it finds for them.
\<close>

fun is_SlackApiError :: "exn \<Rightarrow> bool" where
  "is_SlackApiError (SlackApiError msg err) = True"
| "is_SlackApiError _ = False"

fun answers :: "exn + 'a \<Rightarrow> bool" where
  "answers (Inl e) = is_SlackApiError e"
| "answers (Inr x) = True"

definition answers_email ::
  "client \<Rightarrow> pyval \<Rightarrow> pyval \<Rightarrow> pyval \<Rightarrow> string \<Rightarrow> pyval \<Rightarrow> pyval \<Rightarrow> bool" where
  "answers_email c shot_name sequence_name project_name message_content step email =
     (answers (lookupByEmail c email)
      \<and> (case client_identity c email of
            None \<Rightarrow> True
          | Some u \<Rightarrow> answers (postMessage c u (personalized project_name sequence_name shot_name
                                                  step message_content))))"

definition answers_all ::
  "client \<Rightarrow> users_by_step \<Rightarrow> pyval \<Rightarrow> pyval \<Rightarrow> pyval \<Rightarrow> string \<Rightarrow> bool" where
  "answers_all c assigned_users_by_step shot_name sequence_name project_name message_content =
     list_all (\<lambda>(step, users).
                 list_all (answers_email c shot_name sequence_name project_name message_content
                             step) users)
              assigned_users_by_step"

text \<open>The rows of the dispatch in \<^verbatim>\<open>webhook\<close>, lines 266-273.\<close>

definition routed :: "envelope \<Rightarrow> bool" where
  "routed event_data =
     (entity_type event_data = PStr ''Shot''
      \<or> (entity_type event_data = PStr ''Note''
          \<and> event_type event_data = PStr ''Shotgun_Note_New''
          \<and> operation event_data = PStr ''create'')
      \<or> (entity_type event_data = PStr ''Reply''
          \<and> event_type event_data = PStr ''Shotgun_Reply_New''
          \<and> operation event_data = PStr ''create'')
      \<or> (entity_type event_data = PStr ''Task''
          \<and> event_type event_data = PStr ''Shotgun_Task_Change''
          \<and> operation event_data = PStr ''update''))"


text \<open>The bodies the handlers compose.\<close>

definition shot_status_message :: "pyval \<Rightarrow> pyval \<Rightarrow> string" where
  "shot_status_message old_description new_description =
     ''A shot status has been changed from '' @ quoted (py_str old_description) @ '' to ''
     @ quoted (py_str new_description) @ ''.''"

definition reply_message :: "pyval \<Rightarrow> pyval \<Rightarrow> string" where
  "reply_message reply_content note_content =
     ''A new Reply has been created:\<newline>'' @ py_str reply_content @ ''\<newline>''
     @ ''Related Note: '' @ py_str note_content"

definition reply_message_by_you :: "pyval \<Rightarrow> pyval \<Rightarrow> string" where
  "reply_message_by_you reply_content note_content =
     ''A new Reply has been created by you:\<newline>'' @ py_str reply_content @ ''\<newline>''
     @ ''Related Note: '' @ py_str note_content"

text \<open>The chat identity of the author of a reply, as lines 530-532 find it.\<close>

definition author_identity :: "world \<Rightarrow> reply_rec \<Rightarrow> pyval option" where
  "author_identity w rd =
     (let created_by_email = get_d (rp_created_by_email rd) (PStr ''unknown'')
      in if truthy created_by_email then chat_identity w created_by_email else None)"

text \<open>
  The replies the outcome below speaks of: those on a note without links and those on
  a note whose first link is a Shot (and the replies that do not exist).
\<close>

definition shot_or_unlinked :: "reply_rec option \<Rightarrow> bool" where
  "shot_or_unlinked reply_details =
     (case reply_details of
        None \<Rightarrow> True
      | Some rd \<Rightarrow> (case rp_note_links rd of [] \<Rightarrow> True | l # _ \<Rightarrow> link_type l = ''Shot''))"

text \<open>
  What a Reply event comes to, case by case: the answer and the messages sent. A reply
  on a note whose first link is a Shot goes to the recipients of the shot, or to no one
  when the shot has none; a reply on a note without links goes to its author, when the
  author has a chat identity, with a body of its own.
\<close>

definition reply_outcome :: "world \<Rightarrow> reply_rec option \<Rightarrow> response \<times> (pyval \<times> string) list" where
  "reply_outcome w reply_details =
     (case reply_details of
        None \<Rightarrow> ((''Reply details not found'', 404), [])
      | Some rd \<Rightarrow>
          (let reply_content = get_d (rp_content rd) (PStr ''No content'');
               note_content = get_d (rp_note_content rd) (PStr ''No associated note content'')
           in case rp_note_links rd of
                linked_shot # _ \<Rightarrow>
                  (case fst (get_assigned_users_from_tasks w (link_id linked_shot)) of
                     Inl e \<Rightarrow> ((''Error processing data'', 500), [])
                   | Inr (recipients, shot_name, sequence_name, project_name) \<Rightarrow>
                       if dict_truthy recipients
                       then ((''success'', 200),
                             deliveries w (get_d recipients []) shot_name sequence_name
                               project_name (reply_message reply_content note_content))
                       else ((''No assigned users found for linked entity'', 404), []))
              | [] \<Rightarrow>
                  (case author_identity w rd of
                     Some u \<Rightarrow> ((''success'', 200),
                                [(u, reply_message_by_you reply_content note_content)])
                   | None \<Rightarrow> ((''No users found for notification'', 404), []))))"

section \<open>Auxiliary notions of the proofs\<close>

text \<open>The body of the inner loop of \<^verbatim>\<open>send_message_to_assigned_users\<close>, lines 238-249.\<close>

definition email_body ::
  "world \<Rightarrow> pyval \<Rightarrow> pyval \<Rightarrow> pyval \<Rightarrow> string \<Rightarrow> pyval \<Rightarrow> pyval \<Rightarrow> unit eff" where
  "email_body w shot_name sequence_name project_name message_content step email =
     ebind (find_slack_user_by_email w email) (\<lambda>slack_user_id.
       if truthy slack_user_id then
         etry (ethen (send_slack_message w slack_user_id
                        (''In '' @ py_str project_name @ ''|'' @ py_str sequence_name @ ''|''
                         @ py_str shot_name @ ''|'' @ py_str step @ ''\<newline>''
                         @ message_content))
                     (log INFO (''Message sent to '' @ py_str email @ '' (Slack ID: ''
                                @ py_str slack_user_id @ '') for step '' @ py_str step)))
              (\<lambda>e. case e of
                      SlackApiError msg err \<Rightarrow>
                        Some (log ERROR (''Error sending message to '' @ py_str email
                                         @ '': '' @ err))
                    | _ \<Rightarrow> None)
       else log WARNING (''Could not find Slack user for email: '' @ py_str email))"

text \<open>The same body over a client in general.\<close>

definition email_body_on ::
  "client \<Rightarrow> pyval \<Rightarrow> pyval \<Rightarrow> pyval \<Rightarrow> string \<Rightarrow> pyval \<Rightarrow> pyval \<Rightarrow> unit eff" where
  "email_body_on c shot_name sequence_name project_name message_content step email =
     ebind (find_slack_user_by_email_on c email) (\<lambda>slack_user_id.
       if truthy slack_user_id then
         etry (ethen (send_slack_message_on c slack_user_id
                        (''In '' @ py_str project_name @ ''|'' @ py_str sequence_name @ ''|''
                         @ py_str shot_name @ ''|'' @ py_str step @ ''\<newline>''
                         @ message_content))
                     (log INFO (''Message sent to '' @ py_str email @ '' (Slack ID: ''
                                @ py_str slack_user_id @ '') for step '' @ py_str step)))
              (\<lambda>e. case e of
                      SlackApiError msg err \<Rightarrow>
                        Some (log ERROR (''Error sending message to '' @ py_str email
                                         @ '': '' @ err))
                    | _ \<Rightarrow> None)
       else log WARNING (''Could not find Slack user for email: '' @ py_str email))"

text \<open>Every call of a computation's trace satisfies \<open>Q\<close>.\<close>

definition only :: "(call \<Rightarrow> bool) \<Rightarrow> 'a eff \<Rightarrow> bool" where
  "only Q m = list_all Q (snd m)"

fun is_log :: "call \<Rightarrow> bool" where
  "is_log (Log l m) = True"
| "is_log _ = False"

definition reads :: "call \<Rightarrow> bool" where
  "reads c = (is_query c \<or> is_log c)"

definition unthrottled :: "call \<Rightarrow> bool" where
  "unthrottled c = (\<not> is_throttle c)"

section \<open>A tracking source and a directory to run the handlers on\<close>

definition ann :: entity_link where
  "ann = \<lparr>link_type = ''HumanUser'', link_id = PInt 7, link_name = PStr ''Ann''\<rparr>"

definition bob :: entity_link where
  "bob = \<lparr>link_type = ''HumanUser'', link_id = PInt 8, link_name = PStr ''Bob''\<rparr>"

definition cem :: entity_link where
  "cem = \<lparr>link_type = ''HumanUser'', link_id = PInt 9, link_name = PStr ''Cem''\<rparr>"

text \<open>
  Shot 1 is SH020 of sequence SQ010 of project Atlas, with an animation task of Ann and
  a compositing task of Cem, Bob and Ann. Ann is U7 in the chat directory, Bob is not
  in it, Cem is U9 and a message to U9 is rejected. Task 30 is the animation task; task
  31 belongs to an asset and task 32 to nothing. Version 40 has no shot. Reply 50 is
  Ann's, on a note without links; reply 51 is on a note about shot 1; reply 52 has no
  author and no links; reply 53 is on a note about shot 2, which does not exist.
\<close>

definition demo_world :: world where
  "demo_world =
     \<lparr>sg_shot = (\<lambda>i. if i = PInt 1
                      then Some \<lparr>shot_code = Some (PStr ''SH020''),
                                 shot_project_name = Some (PStr ''Atlas''),
                                 shot_sequence_code = Some (PStr ''SQ010'')\<rparr>
                      else None),
      sg_asset = (\<lambda>i. None),
      sg_version = (\<lambda>i. if i = PInt 40
                         then Some \<lparr>version_code = Some (PStr ''v003''),
                                    version_project_name = Some (PStr ''Atlas''),
                                    version_shot_code = Some PNone\<rparr>
                         else None),
      sg_user = (\<lambda>i. if i = PInt 7 then Some \<lparr>hu_email = Some (PStr ''ann@x.io'')\<rparr>
                      else if i = PInt 8 then Some \<lparr>hu_email = Some (PStr ''bob@x.io'')\<rparr>
                      else if i = PInt 9 then Some \<lparr>hu_email = Some (PStr ''cem@x.io'')\<rparr>
                      else None),
      sg_task = (\<lambda>i. if i = PInt 30
                      then Some \<lparr>task_assignees = [ann], task_step = Some (PStr ''anim''),
                                 task_entity = Some \<lparr>link_type = ''Shot'', link_id = PInt 1,
                                                     link_name = PStr ''SH020''\<rparr>\<rparr>
                      else if i = PInt 31
                      then Some \<lparr>task_assignees = [ann], task_step = Some (PStr ''model''),
                                 task_entity = Some \<lparr>link_type = ''Asset'', link_id = PInt 2,
                                                     link_name = PStr ''Tree''\<rparr>\<rparr>
                      else if i = PInt 32
                      then Some \<lparr>task_assignees = [ann], task_step = Some (PStr ''anim''),
                                 task_entity = None\<rparr>
                      else None),
      sg_tasks_of = (\<lambda>ty i. if ty = ''Shot'' \<and> i = PInt 1
                             then [\<lparr>task_assignees = [ann], task_step = Some (PStr ''anim''),
                                    task_entity = None\<rparr>,
                                   \<lparr>task_assignees = [cem, bob, ann],
                                    task_step = Some (PStr ''comp''), task_entity = None\<rparr>]
                             else []),
      sg_note = (\<lambda>i. None),
      sg_reply = (\<lambda>i. if i = PInt 50
                       then Some \<lparr>rp_content = Some (PStr ''ok''),
                                  rp_note_content = Some (PStr ''fix''),
                                  rp_note_links = [],
                                  rp_created_by_email = Some (PStr ''ann@x.io'')\<rparr>
                       else if i = PInt 51
                       then Some \<lparr>rp_content = Some (PStr ''ok''),
                                  rp_note_content = Some (PStr ''fix''),
                                  rp_note_links = [\<lparr>link_type = ''Shot'', link_id = PInt 1,
                                                    link_name = PStr ''SH020''\<rparr>],
                                  rp_created_by_email = Some (PStr ''ann@x.io'')\<rparr>
                       else if i = PInt 52
                       then Some \<lparr>rp_content = Some (PStr ''ok''),
                                  rp_note_content = Some (PStr ''fix''),
                                  rp_note_links = [],
                                  rp_created_by_email = Some PNone\<rparr>
                       else if i = PInt 53
                       then Some \<lparr>rp_content = Some (PStr ''ok''),
                                  rp_note_content = Some (PStr ''fix''),
                                  rp_note_links = [\<lparr>link_type = ''Shot'', link_id = PInt 2,
                                                    link_name = PStr ''SH030''\<rparr>],
                                  rp_created_by_email = Some (PStr ''ann@x.io'')\<rparr>
                       else None),
      sg_attachment = (\<lambda>i. None),
      slack_user_by_email = (\<lambda>e. if e = PStr ''ann@x.io'' then SlackOk (PStr ''U7'')
                                  else if e = PStr ''cem@x.io'' then SlackOk (PStr ''U9'')
                                  else SlackErr ''users_not_found'' ''users_not_found''),
      slack_post = (\<lambda>c t. if c = PStr ''U9''
                           then SlackErr ''channel_not_found'' ''channel_not_found''
                           else SlackOk ''1700000000.000100'')\<rparr>"

text \<open>
  The client of the demonstration world, but with a network that fails on the send to
  U9.
\<close>

definition faulty_client :: client where
  "faulty_client =
     (slack_client demo_world)
       \<lparr>postMessage := (\<lambda>channel txt. if channel = PStr ''U9''
                                       then Inl (OSError ''timed out'')
                                       else Inr ''1700000000.000100'')\<rparr>"

definition demo_event :: "string \<Rightarrow> string \<Rightarrow> string \<Rightarrow> int \<Rightarrow> envelope" where
  "demo_event ety evt op i =
     \<lparr>entity_type = PStr ety, entity_id = PInt i, operation = PStr op, event_type = PStr evt,
      attribute_name = PNone, old_value = PNone, new_value = PNone, added = [], removed = []\<rparr>"

definition shot_event :: "string \<Rightarrow> string \<Rightarrow> envelope" where
  "shot_event old new =
     (demo_event ''Shot'' ''Shotgun_Shot_Change'' ''update'' 1)
       \<lparr>attribute_name := PStr ''sg_status_list'', old_value := PStr old, new_value := PStr new\<rparr>"

definition reply_event :: "int \<Rightarrow> envelope" where
  "reply_event i = demo_event ''Reply'' ''Shotgun_Reply_New'' ''create'' i"

definition task_event :: "int \<Rightarrow> entity_link list \<Rightarrow> entity_link list \<Rightarrow> envelope" where
  "task_event i a r =
     (demo_event ''Task'' ''Shotgun_Task_Change'' ''update'' i)
       \<lparr>attribute_name := PStr ''task_assignees'', added := a, removed := r\<rparr>"

section \<open>Lemmas\<close>

lemma posts_append: "posts (a @ b) = posts a @ posts b"
  by (induction a rule: posts.induct) auto

lemma lookups_append: "lookups (a @ b) = lookups a @ lookups b"
  by (induction a rule: lookups.induct) auto

lemma posts_concat: "posts (concat xss) = concat (map posts xss)"
  by (induction xss) (auto simp: posts_append)

lemma lookups_concat: "lookups (concat xss) = concat (map lookups xss)"
  by (induction xss) (auto simp: lookups_append)

lemma ebind_Inr: "ebind (Inr x, t) f = (fst (f x), t @ snd (f x))"
  by (simp add: ebind_def split: prod.splits)

lemma ebind_Inl: "ebind (Inl e, t) f = (Inl e, t)"
  by (simp add: ebind_def)

lemma ethen_Inr: "ethen (Inr x, t) n = (fst n, t @ snd n)"
  by (simp add: ethen_def ebind_Inr)

lemma ethen_Inl: "ethen (Inl e, t) n = (Inl e, t)"
  by (simp add: ethen_def ebind_Inl)

lemma etry_Inr: "etry (Inr x, t) h = (Inr x, t)"
  by (simp add: etry_def)

lemma for_each_ok:
  "(\<And>x. x \<in> set xs \<Longrightarrow> fst (body x) = Inr ()) \<Longrightarrow>
   for_each xs body = (Inr (), concat (map (\<lambda>x. snd (body x)) xs))"
proof (induction xs)
  case Nil
  then show ?case by (simp add: eret_def)
next
  case (Cons x xs)
  obtain t where b: "body x = (Inr (), t)"
    using Cons.prems[of x] by (cases "body x") simp
  have ih: "for_each xs body = (Inr (), concat (map (\<lambda>x. snd (body x)) xs))"
    using Cons by simp
  show ?case
    by (simp add: ih b ethen_Inr)
qed

lemma find_slack_user_by_email_eq:
  "find_slack_user_by_email w email =
     (case slack_user_by_email w email of
        SlackOk u \<Rightarrow> (Inr u, [LookupByEmail email])
      | SlackErr msg err \<Rightarrow>
          (Inr PNone, [LookupByEmail email,
                       Log ERROR (''Error finding Slack user by email: '' @ err)]))"
  by (simp add: find_slack_user_by_email_def users_lookupByEmail_def etry_def ethen_def
        ebind_def log_def emit_def eret_def split: slack_result.splits)

lemma send_slack_message_eq:
  "send_slack_message w c txt =
     (Inr (), [PostMessage c txt,
               (case slack_post w c txt of
                  SlackOk ts \<Rightarrow> Log INFO (''Message sent successfully at '' @ ts @ '' to '' @ py_str c)
                | SlackErr msg err \<Rightarrow> Log ERROR (''Error sending message: '' @ err))])"
  by (simp add: send_slack_message_def chat_postMessage_def etry_def ethen_def
        ebind_def log_def emit_def eret_def split: slack_result.splits)


lemma send_unfold:
  "send_message_to_assigned_users w d shot_name sequence_name project_name message_content =
     for_each d (\<lambda>(step, users).
       for_each users (email_body w shot_name sequence_name project_name message_content step))"
  unfolding send_message_to_assigned_users_def email_body_def ..

lemma email_body_fst: "fst (email_body w s q p m step email) = Inr ()"
  by (simp add: email_body_def find_slack_user_by_email_eq send_slack_message_eq
        ebind_Inr ethen_Inr etry_Inr log_def emit_def split: slack_result.splits)

lemma email_body_lookups: "lookups (snd (email_body w s q p m step email)) = [email]"
  by (simp add: email_body_def find_slack_user_by_email_eq send_slack_message_eq
        ebind_Inr ethen_Inr etry_Inr log_def emit_def split: slack_result.splits)

lemma email_body_posts:
  "posts (snd (email_body w s q p m step email)) =
     (case chat_identity w email of Some u \<Rightarrow> [(u, personalized p q s step m)] | None \<Rightarrow> [])"
  by (simp add: email_body_def find_slack_user_by_email_eq send_slack_message_eq chat_identity_def
        personalized_def
        ebind_Inr ethen_Inr etry_Inr log_def emit_def split: slack_result.splits)

lemma email_body_warnings:
  "warnings (snd (email_body w s q p m step email)) =
     (case chat_identity w email of Some u \<Rightarrow> []
      | None \<Rightarrow> [''Could not find Slack user for email: '' @ py_str email])"
  by (simp add: email_body_def find_slack_user_by_email_eq send_slack_message_eq chat_identity_def
        ebind_Inr ethen_Inr etry_Inr log_def emit_def split: slack_result.splits)


lemma warnings_append: "warnings (a @ b) = warnings a @ warnings b"
  by (induction a rule: warnings.induct) auto

lemma warnings_concat: "warnings (concat xss) = concat (map warnings xss)"
  by (induction xss) (auto simp: warnings_append)

lemma inner_loop:
  "for_each users (email_body w s q p m step) =
     (Inr (), concat (map (\<lambda>email. snd (email_body w s q p m step email)) users))"
  by (rule for_each_ok) (rule email_body_fst)

lemma send_eq:
  "send_message_to_assigned_users w d s q p m =
     (Inr (), concat (map (\<lambda>(step, users).
                 concat (map (\<lambda>email. snd (email_body w s q p m step email)) users)) d))"
proof -
  have "for_each d (\<lambda>(step, users). for_each users (email_body w s q p m step)) =
        (Inr (), concat (map (\<lambda>x. snd ((\<lambda>(step, users).
            for_each users (email_body w s q p m step)) x)) d))"
    by (rule for_each_ok) (simp add: inner_loop split: prod.splits)
  then show ?thesis
    by (simp add: send_unfold inner_loop case_prod_unfold)
qed

lemma map_filter_concat:
  "concat (map (\<lambda>x. case f x of Some y \<Rightarrow> [g y] | None \<Rightarrow> []) xs) =
   List.map_filter (\<lambda>x. map_option g (f x)) xs"
  by (induction xs) (auto simp: List.map_filter_simps split: option.splits)

lemma send_ok: "fst (send_message_to_assigned_users w d s q p m) = Inr ()"
  by (simp add: send_eq)

lemma send_posts: "posts (snd (send_message_to_assigned_users w d s q p m)) = deliveries w d s q p m"
  by (simp add: send_eq posts_concat deliveries_def comp_def case_prod_unfold email_body_posts
        map_filter_concat)

lemma send_lookups: "lookups (snd (send_message_to_assigned_users w d s q p m)) = all_emails d"
  by (simp add: send_eq lookups_concat all_emails_def comp_def case_prod_unfold email_body_lookups)

lemma concat_filter_case:
  "concat (map (\<lambda>x. case f x of Some u \<Rightarrow> [] | None \<Rightarrow> [g x]) xs) =
   map g (filter (\<lambda>x. f x = None) xs)"
  by (induction xs) (auto split: option.splits)

lemma send_warnings:
  "warnings (snd (send_message_to_assigned_users w d s q p m)) =
     map (\<lambda>email. ''Could not find Slack user for email: '' @ py_str email) (skipped w d)"
proof -
  have "concat (map (\<lambda>x. concat (map (\<lambda>email. case chat_identity w email of Some u \<Rightarrow> []
          | None \<Rightarrow> [''Could not find Slack user for email: '' @ py_str email]) (snd x))) d)
        = map (\<lambda>email. ''Could not find Slack user for email: '' @ py_str email) (skipped w d)"
    by (induction d) (auto simp: skipped_def all_emails_def concat_filter_case)
  then show ?thesis
    by (simp add: send_eq warnings_concat comp_def case_prod_unfold email_body_warnings)
qed


lemma only_iff: "only Q m = (\<forall>c \<in> set (snd m). Q c)"
  by (simp add: only_def list_all_iff)

lemma only_eret: "only Q (eret x)" by (simp add: only_iff eret_def)
lemma only_eraise: "only Q (eraise e)" by (simp add: only_iff eraise_def)
lemma only_emit: "Q c \<Longrightarrow> only Q (emit c)" by (simp add: only_iff emit_def)
lemma only_log: "Q (Log l m) \<Longrightarrow> only Q (log l m)" by (simp add: log_def only_emit)

lemma only_ebind:
  assumes "only Q m" and "\<And>x. only Q (f x)"
  shows "only Q (ebind m f)"
proof (cases m)
  case (Pair r t)
  show ?thesis
  proof (cases r)
    case (Inl e)
    with Pair assms(1) show ?thesis by (simp add: only_iff ebind_def)
  next
    case (Inr x)
    have "\<forall>c \<in> set (snd (f x)). Q c" using assms(2)[of x] by (simp add: only_iff)
    with Pair Inr assms(1) show ?thesis
      by (auto simp: only_iff ebind_def split: prod.splits)
  qed
qed

lemma only_ethen: "only Q m \<Longrightarrow> only Q n \<Longrightarrow> only Q (ethen m n)"
  by (simp add: ethen_def only_ebind)

lemma only_etry:
  assumes "only Q m" and "\<And>e m'. h e = Some m' \<Longrightarrow> only Q m'"
  shows "only Q (etry m h)"
proof (cases m)
  case (Pair r t)
  show ?thesis
  proof (cases r)
    case (Inr x)
    with Pair assms(1) show ?thesis by (simp add: only_iff etry_def)
  next
    case (Inl e)
    show ?thesis
    proof (cases "h e")
      case None
      with Pair Inl assms(1) show ?thesis by (simp add: only_iff etry_def)
    next
      case (Some m')
      have "\<forall>c \<in> set (snd m'). Q c" using assms(2)[OF Some] by (simp add: only_iff)
      with Pair Inl Some assms(1) show ?thesis
        by (auto simp: only_iff etry_def split: prod.splits)
    qed
  qed
qed

lemma only_for_each: "(\<And>x. only Q (body x)) \<Longrightarrow> only Q (for_each xs body)"
  by (induction xs) (auto intro: only_eret only_ethen)

lemma only_find_one:
  "Q (FindOne ''Shot'' i) \<Longrightarrow> only Q (find_one_Shot w i)"
  "Q (FindOne ''Asset'' i) \<Longrightarrow> only Q (find_one_Asset w i)"
  "Q (FindOne ''Version'' i) \<Longrightarrow> only Q (find_one_Version w i)"
  "Q (FindOne ''HumanUser'' i) \<Longrightarrow> only Q (find_one_HumanUser w i)"
  "Q (FindOne ''Task'' i) \<Longrightarrow> only Q (find_one_Task w i)"
  "Q (FindOne ''Note'' i) \<Longrightarrow> only Q (find_one_Note w i)"
  "Q (FindOne ''Reply'' i) \<Longrightarrow> only Q (find_one_Reply w i)"
  "Q (FindOne ''Attachment'' i) \<Longrightarrow> only Q (find_one_Attachment w i)"
  "Q (Find ''Task'' ty i) \<Longrightarrow> only Q (find_Task w ty i)"
  by (simp_all add: only_iff find_one_Shot_def find_one_Asset_def find_one_Version_def
        find_one_HumanUser_def find_one_Task_def find_one_Note_def find_one_Reply_def
        find_one_Attachment_def find_Task_def)

lemma only_slack:
  "Q (LookupByEmail email) \<Longrightarrow> only Q (users_lookupByEmail w email)"
  "Q (PostMessage c txt) \<Longrightarrow> only Q (chat_postMessage w c txt)"
  by (simp_all add: only_iff users_lookupByEmail_def chat_postMessage_def split: slack_result.splits)

lemma only_etry_case:
  "only Q m \<Longrightarrow> (\<And>e. case h e of None \<Rightarrow> True | Some m' \<Rightarrow> only Q m') \<Longrightarrow> only Q (etry m h)"
proof (rule only_etry)
  fix e m'
  assume a: "\<And>e. case h e of None \<Rightarrow> True | Some m' \<Rightarrow> only Q m'" and b: "h e = Some m'"
  from a[of e] b show "only Q m'" by simp
qed

lemmas only_intros = only_eret only_eraise only_emit only_log only_ebind only_ethen only_etry_case
  only_for_each only_find_one only_slack

lemma reads_simps [simp]: "reads (FindOne k i)" "reads (Find k t i)" "reads (Log l m)"
  by (simp_all add: reads_def)

lemma only_reads_posts: "only reads m \<Longrightarrow> posts (snd m) = []"
proof -
  have "\<forall>c \<in> set tr. reads c \<Longrightarrow> posts tr = []" for tr
    by (induction tr rule: posts.induct) (auto simp: reads_def)
  then show "only reads m \<Longrightarrow> posts (snd m) = []" by (simp add: only_iff)
qed

lemma only_reads_lookups: "only reads m \<Longrightarrow> lookups (snd m) = []"
proof -
  have "\<forall>c \<in> set tr. reads c \<Longrightarrow> lookups tr = []" for tr
    by (induction tr rule: lookups.induct) (auto simp: reads_def)
  then show "only reads m \<Longrightarrow> lookups (snd m) = []" by (simp add: only_iff)
qed

lemma collect_assignees_reads: "only reads (collect_assignees w st as acc)"
  by (induction w st as acc rule: collect_assignees.induct)
     (auto intro!: only_intros split: option.splits)

lemma collect_tasks_reads: "only reads (collect_tasks w ts acc)"
  by (induction w ts acc rule: collect_tasks.induct)
     (auto intro!: only_intros collect_assignees_reads)

lemma get_assigned_users_from_tasks_reads: "only reads (get_assigned_users_from_tasks w i)"
  unfolding get_assigned_users_from_tasks_def Let_def
  by (auto intro!: only_intros collect_tasks_reads split: option.splits)

lemma get_assigned_users_from_asset_tasks_reads:
  "only reads (get_assigned_users_from_asset_tasks w i)"
  unfolding get_assigned_users_from_asset_tasks_def Let_def
  by (auto intro!: only_intros collect_tasks_reads split: option.splits)

lemma get_assigned_users_from_version_tasks_reads:
  "only reads (get_assigned_users_from_version_tasks w i)"
  unfolding get_assigned_users_from_version_tasks_def Let_def
  by (auto intro!: only_intros get_assigned_users_from_tasks_reads split: option.splits)


lemma only_mono: "only P m \<Longrightarrow> (\<And>c. P c \<Longrightarrow> Q c) \<Longrightarrow> only Q m"
  by (simp add: only_iff)

lemma unthrottled_simps [simp]:
  "unthrottled (FindOne k i)" "unthrottled (Find k t i)" "unthrottled (Log l m)"
  "unthrottled (LookupByEmail e)" "unthrottled (PostMessage c txt)" "unthrottled (Sleep n)"
  by (simp_all add: unthrottled_def)

lemma reads_unthrottled: "only reads m \<Longrightarrow> only unthrottled m"
  by (erule only_mono) (auto simp: reads_def unthrottled_def elim: is_query.elims is_log.elims)

lemma send_slack_message_unthrottled: "only unthrottled (send_slack_message w c txt)"
  unfolding send_slack_message_def
  by (auto intro!: only_intros split: exn.splits)

lemma find_slack_user_by_email_unthrottled: "only unthrottled (find_slack_user_by_email w e)"
  unfolding find_slack_user_by_email_def
  by (auto intro!: only_intros split: exn.splits)

lemma get_shotgrid_user_email_unthrottled: "only unthrottled (get_shotgrid_user_email w i)"
  unfolding get_shotgrid_user_email_def
  by (auto intro!: only_intros split: option.splits)

lemma send_message_to_assigned_users_unthrottled:
  "only unthrottled (send_message_to_assigned_users w d s q p m)"
  unfolding send_message_to_assigned_users_def
  by (auto intro!: only_intros send_slack_message_unthrottled find_slack_user_by_email_unthrottled
      split: exn.splits)

lemma get_file_url_unthrottled: "only unthrottled (get_file_url_from_attachment_id w i)"
  unfolding get_file_url_from_attachment_id_def
  by (auto intro!: only_intros split: option.splits file_field.splits)

lemma first_file_url_unthrottled: "only unthrottled (first_file_url w ids)"
  by (induction ids) (auto intro!: only_intros get_file_url_unthrottled)

lemma get_attachments_unthrottled: "only unthrottled (get_attachments_ids_from_note_id w i)"
  unfolding get_attachments_ids_from_note_id_def
  by (auto intro!: only_intros split: option.splits)

lemmas unthrottled_intros = only_intros send_slack_message_unthrottled
  find_slack_user_by_email_unthrottled get_shotgrid_user_email_unthrottled
  send_message_to_assigned_users_unthrottled get_file_url_unthrottled first_file_url_unthrottled
  get_attachments_unthrottled
  reads_unthrottled[OF get_assigned_users_from_tasks_reads]
  reads_unthrottled[OF get_assigned_users_from_asset_tasks_reads]
  reads_unthrottled[OF get_assigned_users_from_version_tasks_reads]

lemma handle_shot_event_unthrottled: "only unthrottled (handle_shot_event w ev)"
  unfolding handle_shot_event_def Let_def
  by (auto intro!: unthrottled_intros)

lemma handle_asset_event_unthrottled: "only unthrottled (handle_asset_event w ev)"
  unfolding handle_asset_event_def Let_def
  by (auto intro!: unthrottled_intros)

lemma handle_note_event_unthrottled: "only unthrottled (handle_note_event w ev)"
  unfolding handle_note_event_def Let_def
  by (auto intro!: unthrottled_intros split: option.splits list.splits)

lemma handle_reply_event_unthrottled: "only unthrottled (handle_reply_event w ev)"
  unfolding handle_reply_event_def Let_def
  by (auto intro!: unthrottled_intros split: option.splits list.splits)

lemma handle_task_assignment_event_unthrottled:
  "only unthrottled (handle_task_assignment_event w ev)"
  unfolding handle_task_assignment_event_def Let_def
  by (auto intro!: unthrottled_intros split: option.splits)

lemma webhook_unthrottled: "only unthrottled (webhook w r)"
  unfolding webhook_def
  by (auto intro!: only_intros handle_shot_event_unthrottled handle_note_event_unthrottled
        handle_reply_event_unthrottled handle_task_assignment_event_unthrottled
      split: option.splits)

lemma throttle_no_reset:
  "current_time - last_reset self \<le> period self \<Longrightarrow>
   throttle self current_time =
     (if calls self < max_calls self then (True, self\<lparr>calls := calls self + 1\<rparr>) else (False, self))"
  by (simp add: throttle_def)

lemma admitted_no_reset:
  "\<forall>t \<in> set ts. t - last_reset self \<le> period self \<Longrightarrow>
   admitted (throttle_all self ts) = min (length ts) (nat (max_calls self - calls self))"
proof (induction ts arbitrary: self)
  case Nil
  then show ?case by (simp add: admitted_def)
next
  case (Cons t ts)
  have t: "t - last_reset self \<le> period self" using Cons.prems by simp
  show ?case
  proof (cases "calls self < max_calls self")
    case True
    let ?s = "self\<lparr>calls := calls self + 1\<rparr>"
    have "\<forall>t \<in> set ts. t - last_reset ?s \<le> period ?s" using Cons.prems by simp
    from Cons.IH[OF this] True show ?thesis
      unfolding admitted_def by (simp add: throttle_no_reset[OF t])
  next
    case False
    have "\<forall>t \<in> set ts. t - last_reset self \<le> period self" using Cons.prems by simp
    from Cons.IH[OF this] False show ?thesis
      by (simp add: throttle_no_reset[OF t] admitted_def)
  qed
qed

lemma admitted_rejected: "admitted rs + rejected rs = length rs"
  by (induction rs) (auto simp: admitted_def rejected_def)

lemma length_throttle_all: "length (throttle_all self ts) = length ts"
  by (induction ts arbitrary: self) (auto split: prod.splits)

lemmas eff_simps = ebind_Inr ebind_Inl ethen_Inr ethen_Inl etry_Inr eret_def eraise_def log_def
  emit_def find_one_Shot_def find_one_Asset_def find_one_Version_def find_one_HumanUser_def
  find_one_Task_def find_one_Note_def find_one_Reply_def find_one_Attachment_def find_Task_def

lemma etry_ok: "fst m = Inr r \<Longrightarrow> etry m h = m"
  by (cases m) (simp add: etry_def)

lemma ethen_ok: "fst m = Inr () \<Longrightarrow> ethen m n = (fst n, snd m @ snd n)"
  by (cases m) (simp add: ethen_Inr)

lemma etry_all:
  "etry m (\<lambda>e. Some (ethen (log l (f e)) (eret r))) =
     (case fst m of Inl e \<Rightarrow> (Inr r, snd m @ [Log l (f e)]) | Inr x \<Rightarrow> m)"
  by (cases m) (simp add: etry_def eff_simps split: sum.splits)

lemma webhook_task:
  assumes "entity_type ev = PStr ''Task''" "event_type ev = PStr ''Shotgun_Task_Change''"
    "operation ev = PStr ''update''" "fst (handle_task_assignment_event w ev) = Inr r"
  shows "webhook w (Some ev) = handle_task_assignment_event w ev"
  using assms by (simp add: webhook_def etry_ok)

lemma webhook_shot:
  assumes "entity_type ev = PStr ''Shot''" "fst (handle_shot_event w ev) = Inr r"
  shows "webhook w (Some ev) = handle_shot_event w ev"
  using assms by (simp add: webhook_def etry_ok)

lemma webhook_reply:
  assumes "entity_type ev = PStr ''Reply''" "event_type ev = PStr ''Shotgun_Reply_New''"
    "operation ev = PStr ''create''"
  shows "webhook w (Some ev) =
           etry (handle_reply_event w ev)
             (\<lambda>e. Some (ethen (log ERROR (''Error processing the request: '' @ exn_str e))
                               (eret (''Error processing data'', 500))))"
  using assms by (simp add: webhook_def)

lemma get_shotgrid_user_email_eq:
  "get_shotgrid_user_email w i =
     (Inr (case sg_user w i of None \<Rightarrow> PNone | Some u \<Rightarrow> get_d (hu_email u) PNone),
      [FindOne ''HumanUser'' i])"
  by (simp add: get_shotgrid_user_email_def eff_simps split: option.splits)

lemma filter_throttle_empty: "only unthrottled m \<Longrightarrow> filter is_throttle (snd m) = []"
  by (auto simp: only_iff unthrottled_def filter_empty_conv)

lemma gated_from_no_throttle:
  "\<forall>c \<in> set tr. \<not> is_throttle c \<Longrightarrow> gated_from False tr = (posts tr = [])"
  by (induction tr rule: posts.induct) auto

lemma gated_no_throttle: "only unthrottled m \<Longrightarrow> gated (snd m) = (posts (snd m) = [])"
  by (simp add: gated_def gated_from_no_throttle only_iff unthrottled_def)

lemma deliveries_Cons:
  "deliveries w ((step, users) # d) s q p m = deliveries w [(step, users)] s q p m @ deliveries w d s q p m"
  by (simp add: deliveries_def)

lemma deliveries_steps:
  "concat (map (\<lambda>x. deliveries w [x] s q p m) d) = deliveries w d s q p m"
proof (induction d)
  case Nil
  show ?case by (simp add: deliveries_def)
next
  case (Cons x d)
  obtain step users where x: "x = (step, users)" by (cases x)
  show ?case using Cons by (simp add: x deliveries_Cons[of w step users d])
qed

lemma step_body:
  "(\<lambda>(step, users). send_message_to_assigned_users w [(step, users)] s q p m) =
   (\<lambda>x. send_message_to_assigned_users w [x] s q p m)"
  by (simp add: fun_eq_iff)

lemma step_loop:
  "for_each d (\<lambda>x. send_message_to_assigned_users w [x] s q p m) =
     (Inr (), concat (map (\<lambda>x. snd (send_message_to_assigned_users w [x] s q p m)) d))"
  by (rule for_each_ok) (simp add: send_ok)

lemma step_loop_fst:
  "fst (for_each d (\<lambda>x. send_message_to_assigned_users w [x] s q p m)) = Inr ()"
  by (simp add: step_loop)

lemma step_loop_posts:
  "posts (snd (for_each d (\<lambda>x. send_message_to_assigned_users w [x] s q p m))) =
     deliveries w d s q p m"
  by (simp add: step_loop posts_concat comp_def send_posts deliveries_steps)



lemma handle_shot_event_ok:
  assumes "get_assigned_users_from_tasks w (entity_id ev) = (Inr (Some d, s, q, p), tr)"
      and "d \<noteq> []"
  shows "fst (handle_shot_event w ev) = Inr (''success'', 200)"
    and "posts (snd (handle_shot_event w ev)) =
           deliveries w d s q p
             (shot_status_message (status_get STATUS_DESCRIPTIONS (old_value ev))
                                  (status_get STATUS_DESCRIPTIONS (new_value ev)))"
proof -
  have tr: "posts tr = []"
    using only_reads_posts[OF get_assigned_users_from_tasks_reads, of w "entity_id ev"] assms(1)
    by simp
  let ?m = "shot_status_message (status_get STATUS_DESCRIPTIONS (old_value ev))
                                (status_get STATUS_DESCRIPTIONS (new_value ev))"
  let ?loop = "for_each d (\<lambda>x. send_message_to_assigned_users w [x] s q p ?m)"
  have h: "handle_shot_event w ev = (Inr (''success'', 200), tr @ snd ?loop)"
    using assms
    by (simp add: handle_shot_event_def Let_def ebind_Inr step_body ethen_ok[OF step_loop_fst]
          eret_def shot_status_message_def)
  show "fst (handle_shot_event w ev) = Inr (''success'', 200)"
    by (simp add: h)
  show "posts (snd (handle_shot_event w ev)) = deliveries w d s q p ?m"
    by (simp add: h posts_append tr step_loop_posts)
qed

lemma author_lookup:
  "\<exists>r tr. (if truthy e then find_slack_user_by_email w e else eret PNone) = (Inr r, tr)
          \<and> posts tr = []
          \<and> (if truthy r then (if truthy e then chat_identity w e else None) = Some r
              else (if truthy e then chat_identity w e else None) = None)"
proof (cases "truthy e")
  case False
  then show ?thesis by (simp add: eret_def)
next
  case True
  show ?thesis
  proof (cases "slack_user_by_email w e")
    case (SlackOk u)
    with True show ?thesis
      by (simp add: find_slack_user_by_email_eq chat_identity_def)
  next
    case (SlackErr msg err)
    with True have "find_slack_user_by_email w e =
        (Inr PNone, [LookupByEmail e, Log ERROR (''Error finding Slack user by email: '' @ err)])"
      by (simp add: find_slack_user_by_email_eq)
    with True SlackErr show ?thesis
      by (simp add: chat_identity_def)
  qed
qed

lemma handle_reply_event_outcome:
  assumes "shot_or_unlinked (sg_reply w (entity_id ev))"
  shows "(case fst (handle_reply_event w ev) of
      Inl e \<Rightarrow> fst (reply_outcome w (sg_reply w (entity_id ev))) = (''Error processing data'', 500)
    | Inr r \<Rightarrow> fst (reply_outcome w (sg_reply w (entity_id ev))) = r)
   \<and> posts (snd (handle_reply_event w ev)) = snd (reply_outcome w (sg_reply w (entity_id ev)))"
proof (cases "sg_reply w (entity_id ev)")
  case None
  then show ?thesis
    by (simp add: handle_reply_event_def reply_outcome_def Let_def eff_simps)
next
  case (Some rd)
  note rd = Some
  let ?e = "get_d (rp_created_by_email rd) (PStr ''unknown'')"
  obtain r tr where a: "(if truthy ?e then find_slack_user_by_email w ?e else eret PNone) = (Inr r, tr)"
    and ptr: "posts tr = []"
    and id: "if truthy r then author_identity w rd = Some r else author_identity w rd = None"
    using author_lookup[of ?e w] by (auto simp: author_identity_def Let_def)
  show ?thesis
  proof (cases "rp_note_links rd")
    case Nil
    show ?thesis
      using id
      by (auto simp: handle_reply_event_def reply_outcome_def Let_def rd Nil a ptr eff_simps
            send_slack_message_eq posts_append reply_message_by_you_def
          split: slack_result.splits)
  next
    case (Cons l rest)
    have shot: "link_type l = ''Shot''"
      using assms by (simp add: shot_or_unlinked_def rd Cons)
    obtain res tr2 where g: "get_assigned_users_from_tasks w (link_id l) = (res, tr2)"
      by (cases "get_assigned_users_from_tasks w (link_id l)")
    have ptr2: "posts tr2 = []"
      using only_reads_posts[OF get_assigned_users_from_tasks_reads, of w "link_id l"] g by simp
    show ?thesis
    proof (cases res)
      case (Inl e)
      then show ?thesis
        by (simp add: handle_reply_event_def reply_outcome_def Let_def rd Cons shot a ptr g ptr2
              eff_simps posts_append)
    next
      case (Inr x)
      obtain d s q p where x: "x = (d, s, q, p)" by (cases x)
      show ?thesis
      proof (cases "dict_truthy d")
        case False
        then show ?thesis
          by (simp add: handle_reply_event_def reply_outcome_def Let_def rd Cons shot a ptr g ptr2
                Inr x eff_simps posts_append)
      next
        case True
        then show ?thesis
          by (simp add: handle_reply_event_def reply_outcome_def Let_def rd Cons shot a ptr g ptr2
                Inr x ebind_Inr eret_def find_one_Reply_def log_def emit_def
                ethen_Inr ethen_ok[OF send_ok] posts_append send_posts reply_message_def)
      qed
    qed
  qed
qed

lemma webhook_reply_outcome:
  assumes "entity_type ev = PStr ''Reply''" and "event_type ev = PStr ''Shotgun_Reply_New''"
      and "operation ev = PStr ''create''"
      and "shot_or_unlinked (sg_reply w (entity_id ev))"
  shows "response_of (webhook w (Some ev)) = Some (fst (reply_outcome w (sg_reply w (entity_id ev))))"
    and "posts (trace_of (webhook w (Some ev))) = snd (reply_outcome w (sg_reply w (entity_id ev)))"
  using handle_reply_event_outcome[OF assms(4)]
  by (simp_all add: webhook_reply[OF assms(1,2,3)] etry_all response_of_def trace_of_def posts_append
        split: sum.splits)

lemmas demo_defs = demo_world_def demo_event_def shot_event_def reply_event_def task_event_def
  ann_def bob_def cem_def

lemma demo_reply_event:
  "entity_type (reply_event i) = PStr ''Reply''"
  "event_type (reply_event i) = PStr ''Shotgun_Reply_New''"
  "operation (reply_event i) = PStr ''create''"
  "entity_id (reply_event i) = PInt i"
  by (simp_all add: demo_defs)

lemma demo_recipients:
  "get_assigned_users_from_tasks demo_world (PInt 1) =
     (Inr (Some [(PStr ''anim'', [PStr ''ann@x.io'']),
                 (PStr ''comp'', [PStr ''cem@x.io'', PStr ''bob@x.io'', PStr ''ann@x.io''])],
           PStr ''SH020'', PStr ''SQ010'', PStr ''Atlas''),
      [FindOne ''Shot'' (PInt 1), Find ''Task'' ''Shot'' (PInt 1), FindOne ''HumanUser'' (PInt 7),
       FindOne ''HumanUser'' (PInt 9), FindOne ''HumanUser'' (PInt 8),
       FindOne ''HumanUser'' (PInt 7)])"
  by (simp add: get_assigned_users_from_tasks_def Let_def eff_simps demo_defs)

lemma demo_identities:
  "chat_identity demo_world (PStr ''ann@x.io'') = Some (PStr ''U7'')"
  "chat_identity demo_world (PStr ''bob@x.io'') = None"
  "chat_identity demo_world (PStr ''cem@x.io'') = Some (PStr ''U9'')"
  by (simp_all add: chat_identity_def demo_defs)

lemma demo_no_shot:
  "fst (get_assigned_users_from_tasks demo_world (PInt 2)) = Inr (None, PNone, PNone, PNone)"
  by (simp add: get_assigned_users_from_tasks_def Let_def eff_simps demo_defs)

lemma demo_replies:
  "sg_reply demo_world (PInt 50) = Some \<lparr>rp_content = Some (PStr ''ok''),
                                  rp_note_content = Some (PStr ''fix''),
                                  rp_note_links = [],
                                  rp_created_by_email = Some (PStr ''ann@x.io'')\<rparr>"
  "sg_reply demo_world (PInt 51) = Some \<lparr>rp_content = Some (PStr ''ok''),
                                  rp_note_content = Some (PStr ''fix''),
                                  rp_note_links = [\<lparr>link_type = ''Shot'', link_id = PInt 1,
                                                    link_name = PStr ''SH020''\<rparr>],
                                  rp_created_by_email = Some (PStr ''ann@x.io'')\<rparr>"
  "sg_reply demo_world (PInt 52) = Some \<lparr>rp_content = Some (PStr ''ok''),
                                  rp_note_content = Some (PStr ''fix''),
                                  rp_note_links = [],
                                  rp_created_by_email = Some PNone\<rparr>"
  "sg_reply demo_world (PInt 53) = Some \<lparr>rp_content = Some (PStr ''ok''),
                                  rp_note_content = Some (PStr ''fix''),
                                  rp_note_links = [\<lparr>link_type = ''Shot'', link_id = PInt 2,
                                                    link_name = PStr ''SH030''\<rparr>],
                                  rp_created_by_email = Some (PStr ''ann@x.io'')\<rparr>"
  "sg_reply demo_world (PInt 54) = None"
  by (simp_all add: demo_world_def)

lemma demo_replies_linked:
  "shot_or_unlinked (sg_reply demo_world (entity_id (reply_event 50)))"
  "shot_or_unlinked (sg_reply demo_world (entity_id (reply_event 51)))"
  "shot_or_unlinked (sg_reply demo_world (entity_id (reply_event 52)))"
  "shot_or_unlinked (sg_reply demo_world (entity_id (reply_event 53)))"
  by (simp_all add: shot_or_unlinked_def demo_reply_event(4) demo_replies)

lemma demo_reply_outcomes:
  "reply_outcome demo_world (sg_reply demo_world (PInt 50)) =
     ((''success'', 200), [(PStr ''U7'', reply_message_by_you (PStr ''ok'') (PStr ''fix''))])"
  "reply_outcome demo_world (sg_reply demo_world (PInt 51)) =
     ((''success'', 200),
      [(PStr ''U7'', personalized (PStr ''Atlas'') (PStr ''SQ010'') (PStr ''SH020'') (PStr ''anim'')
                       (reply_message (PStr ''ok'') (PStr ''fix''))),
       (PStr ''U9'', personalized (PStr ''Atlas'') (PStr ''SQ010'') (PStr ''SH020'') (PStr ''comp'')
                       (reply_message (PStr ''ok'') (PStr ''fix''))),
       (PStr ''U7'', personalized (PStr ''Atlas'') (PStr ''SQ010'') (PStr ''SH020'') (PStr ''comp'')
                       (reply_message (PStr ''ok'') (PStr ''fix'')))])"
  "reply_outcome demo_world (sg_reply demo_world (PInt 52)) =
     ((''No users found for notification'', 404), [])"
  "reply_outcome demo_world (sg_reply demo_world (PInt 53)) =
     ((''No assigned users found for linked entity'', 404), [])"
  "reply_outcome demo_world (sg_reply demo_world (PInt 54)) =
     ((''Reply details not found'', 404), [])"
proof -
  note r = demo_replies
  show "reply_outcome demo_world (sg_reply demo_world (PInt 50)) =
     ((''success'', 200), [(PStr ''U7'', reply_message_by_you (PStr ''ok'') (PStr ''fix''))])"
    by (simp add: r reply_outcome_def Let_def author_identity_def
          demo_identities)
  show "reply_outcome demo_world (sg_reply demo_world (PInt 51)) =
     ((''success'', 200),
      [(PStr ''U7'', personalized (PStr ''Atlas'') (PStr ''SQ010'') (PStr ''SH020'') (PStr ''anim'')
                       (reply_message (PStr ''ok'') (PStr ''fix''))),
       (PStr ''U9'', personalized (PStr ''Atlas'') (PStr ''SQ010'') (PStr ''SH020'') (PStr ''comp'')
                       (reply_message (PStr ''ok'') (PStr ''fix''))),
       (PStr ''U7'', personalized (PStr ''Atlas'') (PStr ''SQ010'') (PStr ''SH020'') (PStr ''comp'')
                       (reply_message (PStr ''ok'') (PStr ''fix'')))])"
    by (simp add: r reply_outcome_def Let_def demo_recipients deliveries_def
          List.map_filter_simps demo_identities)
  show "reply_outcome demo_world (sg_reply demo_world (PInt 52)) =
     ((''No users found for notification'', 404), [])"
    by (simp add: r reply_outcome_def Let_def author_identity_def)
  show "reply_outcome demo_world (sg_reply demo_world (PInt 53)) =
     ((''No assigned users found for linked entity'', 404), [])"
    by (simp add: r reply_outcome_def Let_def demo_no_shot)
  show "reply_outcome demo_world (sg_reply demo_world (PInt 54)) =
     ((''Reply details not found'', 404), [])"
    by (simp add: r reply_outcome_def)
qed

lemma throttle_calls_nonneg: "0 \<le> calls self \<Longrightarrow> 0 \<le> calls (snd (throttle self t))"
  by (simp add: throttle_def Let_def)

lemma throttle_end_calls_nonneg: "0 \<le> calls self \<Longrightarrow> 0 \<le> calls (throttle_end self ts)"
  by (induction ts arbitrary: self) (simp_all add: throttle_calls_nonneg)

lemma throttle_after_reset:
  assumes "t - last_reset self > period self" and "0 \<le> period self"
  shows "throttle self t = throttle (self\<lparr>calls := 0, last_reset := t\<rparr>) t"
  using assms by (simp add: throttle_def Let_def)

lemma one_window_count:
  assumes "one_window self ts"
  shows "admitted (throttle_all self ts) =
           min (length ts) (nat (max_calls self - window_calls self ts))"
proof (cases ts)
  case Nil
  then show ?thesis by (simp add: admitted_def)
next
  case (Cons t rest)
  show ?thesis
  proof (cases "t - last_reset self > period self")
    case False
    then have "\<forall>t \<in> set ts. t - last_reset self \<le> period self"
      using assms by (simp add: one_window_def window_start_def Cons list_all_iff)
    from admitted_no_reset[OF this] False show ?thesis
      by (simp add: window_calls_def Cons)
  next
    case True
    let ?s = "self\<lparr>calls := 0, last_reset := t\<rparr>"
    have all: "\<forall>u \<in> set ts. u - t \<le> period self"
      using assms True by (simp add: one_window_def window_start_def Cons list_all_iff)
    then have p: "0 \<le> period self" by (simp add: Cons)
    have "throttle_all self ts = throttle_all ?s ts"
      by (simp add: Cons throttle_after_reset[OF True p])
    moreover have "\<forall>u \<in> set ts. u - last_reset ?s \<le> period ?s"
      using all by simp
    from admitted_no_reset[OF this]
    have "admitted (throttle_all ?s ts) = min (length ts) (nat (max_calls self))" by simp
    ultimately show ?thesis using True by (simp add: window_calls_def Cons)
  qed
qed

lemma window_calls_nonneg: "0 \<le> calls self \<Longrightarrow> 0 \<le> window_calls self ts"
  by (simp add: window_calls_def split: list.splits)

lemma send_on_unfold:
  "send_message_to_assigned_users_on c d shot_name sequence_name project_name message_content =
     for_each d (\<lambda>(step, users).
       for_each users (email_body_on c shot_name sequence_name project_name message_content step))"
  unfolding send_message_to_assigned_users_on_def email_body_on_def ..

lemma find_on_eq:
  "answers (lookupByEmail c email) \<Longrightarrow>
   find_slack_user_by_email_on c email =
     (case lookupByEmail c email of
        Inr u \<Rightarrow> (Inr u, [LookupByEmail email])
      | Inl e \<Rightarrow> (Inr PNone,
                  [LookupByEmail email,
                   Log ERROR (''Error finding Slack user by email: ''
                              @ (case e of SlackApiError msg err \<Rightarrow> err | _ \<Rightarrow> ''''))]))"
  by (cases "lookupByEmail c email"; cases rule: is_SlackApiError.cases)
     (auto simp: find_slack_user_by_email_on_def users_lookupByEmail_on_def etry_def ethen_def
        ebind_def log_def emit_def eret_def split: sum.splits exn.splits)

lemma send_slack_on_eq:
  "answers (postMessage c u txt) \<Longrightarrow>
   send_slack_message_on c u txt =
     (Inr (), [PostMessage u txt,
               (case postMessage c u txt of
                  Inr ts \<Rightarrow> Log INFO (''Message sent successfully at '' @ ts @ '' to '' @ py_str u)
                | Inl e \<Rightarrow> Log ERROR (''Error sending message: ''
                                      @ (case e of SlackApiError msg err \<Rightarrow> err | _ \<Rightarrow> '''')))])"
  by (cases "postMessage c u txt")
     (auto simp: send_slack_message_on_def chat_postMessage_on_def etry_def ethen_def
        ebind_def log_def emit_def eret_def split: sum.splits exn.splits)

lemma email_body_on_all:
  assumes "answers_email c s q p m step email"
  shows "fst (email_body_on c s q p m step email) = Inr ()
         \<and> lookups (snd (email_body_on c s q p m step email)) = [email]
         \<and> posts (snd (email_body_on c s q p m step email)) =
             (case client_identity c email of
                Some u \<Rightarrow> [(u, personalized p q s step m)] | None \<Rightarrow> [])
         \<and> warnings (snd (email_body_on c s q p m step email)) =
             (case client_identity c email of
                Some u \<Rightarrow> []
              | None \<Rightarrow> [''Could not find Slack user for email: '' @ py_str email])"
proof -
  have a: "answers (lookupByEmail c email)"
    using assms by (simp add: answers_email_def)
  have b: "answers (postMessage c u (personalized p q s step m))"
    if "client_identity c email = Some u" for u
    using assms that by (simp add: answers_email_def)
  show ?thesis
  proof (cases "client_identity c email")
    case None
    then have n: "case lookupByEmail c email of Inr u \<Rightarrow> \<not> truthy u | Inl e \<Rightarrow> True"
      by (simp add: client_identity_def split: sum.splits if_splits)
    show ?thesis
      using n
      by (auto simp: email_body_on_def find_on_eq[OF a] None ebind_Inr log_def emit_def
            split: sum.splits)
  next
    case (Some u)
    then have l: "lookupByEmail c email = Inr u" and t: "truthy u"
      by (auto simp: client_identity_def split: sum.splits if_splits)
    have pm: "''In '' @ py_str p @ ''|'' @ py_str q @ ''|'' @ py_str s @ ''|'' @ py_str step
              @ ''\<newline>'' @ m = personalized p q s step m"
      by (simp add: personalized_def)
    have f: "find_slack_user_by_email_on c email = (Inr u, [LookupByEmail email])"
      by (simp add: find_on_eq[OF a] l)
    have e: "email_body_on c s q p m step email =
               ebind (Inr u, [LookupByEmail email]) (\<lambda>slack_user_id.
                 if truthy slack_user_id then
                   etry (ethen (send_slack_message_on c slack_user_id (personalized p q s step m))
                               (log INFO (''Message sent to '' @ py_str email @ '' (Slack ID: ''
                                          @ py_str slack_user_id @ '') for step '' @ py_str step)))
                        (\<lambda>e. case e of
                                SlackApiError msg err \<Rightarrow>
                                  Some (log ERROR (''Error sending message to '' @ py_str email
                                                   @ '': '' @ err))
                              | _ \<Rightarrow> None)
                 else log WARNING (''Could not find Slack user for email: '' @ py_str email))"
      unfolding email_body_on_def f pm ..
    show ?thesis
      unfolding e
      by (simp add: Some t ebind_Inr send_slack_on_eq[OF b[OF Some]] ethen_Inr etry_Inr log_def
            emit_def split: sum.splits)
  qed
qed

lemma inner_on:
  assumes "list_all (answers_email c s q p m step) users"
  shows "fst (for_each users (email_body_on c s q p m step)) = Inr ()
         \<and> lookups (snd (for_each users (email_body_on c s q p m step))) = users
         \<and> posts (snd (for_each users (email_body_on c s q p m step))) =
             List.map_filter (\<lambda>email. map_option (\<lambda>u. (u, personalized p q s step m))
                                         (client_identity c email)) users
         \<and> warnings (snd (for_each users (email_body_on c s q p m step))) =
             map (\<lambda>email. ''Could not find Slack user for email: '' @ py_str email)
                 (filter (\<lambda>email. client_identity c email = None) users)"
  using assms
proof (induction users)
  case Nil
  show ?case by (simp add: eret_def List.map_filter_simps)
next
  case (Cons email users)
  have h: "answers_email c s q p m step email" using Cons.prems by simp
  note b = email_body_on_all[OF h]
  have ih: "fst (for_each users (email_body_on c s q p m step)) = Inr ()
         \<and> lookups (snd (for_each users (email_body_on c s q p m step))) = users
         \<and> posts (snd (for_each users (email_body_on c s q p m step))) =
             List.map_filter (\<lambda>email. map_option (\<lambda>u. (u, personalized p q s step m))
                                         (client_identity c email)) users
         \<and> warnings (snd (for_each users (email_body_on c s q p m step))) =
             map (\<lambda>email. ''Could not find Slack user for email: '' @ py_str email)
                 (filter (\<lambda>email. client_identity c email = None) users)"
    using Cons by simp
  have e: "for_each (email # users) (email_body_on c s q p m step) =
             (fst (for_each users (email_body_on c s q p m step)),
              snd (email_body_on c s q p m step email)
              @ snd (for_each users (email_body_on c s q p m step)))"
    using b by (simp add: ethen_ok)
  show ?case
    unfolding e using b ih
    by (cases "client_identity c email")
       (simp_all add: lookups_append posts_append warnings_append List.map_filter_simps)
qed

lemma outer_on:
  assumes "answers_all c d s q p m"
  shows "fst (send_message_to_assigned_users_on c d s q p m) = Inr ()
         \<and> lookups (snd (send_message_to_assigned_users_on c d s q p m)) = all_emails d
         \<and> posts (snd (send_message_to_assigned_users_on c d s q p m)) =
             deliveries_on c d s q p m
         \<and> warnings (snd (send_message_to_assigned_users_on c d s q p m)) =
             map (\<lambda>email. ''Could not find Slack user for email: '' @ py_str email)
                 (skipped_on c d)"
  using assms
proof (induction d)
  case Nil
  show ?case
    by (simp add: send_on_unfold eret_def all_emails_def deliveries_on_def skipped_on_def)
next
  case (Cons x d)
  obtain step users where x: "x = (step, users)" by (cases x)
  have h: "list_all (answers_email c s q p m step) users"
    using Cons.prems by (simp add: answers_all_def x)
  have rest: "answers_all c d s q p m"
    using Cons.prems by (simp add: answers_all_def)
  note i = inner_on[OF h]
  note ih = Cons.IH[OF rest]
  have e: "send_message_to_assigned_users_on c (x # d) s q p m =
             (fst (send_message_to_assigned_users_on c d s q p m),
              snd (for_each users (email_body_on c s q p m step))
              @ snd (send_message_to_assigned_users_on c d s q p m))"
    using i by (simp add: send_on_unfold x ethen_ok)
  show ?case
    unfolding e using i ih
    by (simp add: lookups_append posts_append warnings_append all_emails_def deliveries_on_def
          skipped_on_def x)
qed

lemma slack_client_lookups:
  "users_lookupByEmail w email = users_lookupByEmail_on (slack_client w) email"
  "chat_postMessage w channel txt = chat_postMessage_on (slack_client w) channel txt"
  by (simp_all add: users_lookupByEmail_def users_lookupByEmail_on_def chat_postMessage_def
        chat_postMessage_on_def slack_client_def split: slack_result.splits)

lemma slack_client_instance:
  "find_slack_user_by_email w = find_slack_user_by_email_on (slack_client w)"
  "send_slack_message w = send_slack_message_on (slack_client w)"
  "send_message_to_assigned_users w = send_message_to_assigned_users_on (slack_client w)"
proof -
  show a: "find_slack_user_by_email w = find_slack_user_by_email_on (slack_client w)"
    by (simp add: fun_eq_iff find_slack_user_by_email_def find_slack_user_by_email_on_def
          slack_client_lookups)
  show b: "send_slack_message w = send_slack_message_on (slack_client w)"
    by (simp add: fun_eq_iff send_slack_message_def send_slack_message_on_def
          slack_client_lookups)
  show "send_message_to_assigned_users w = send_message_to_assigned_users_on (slack_client w)"
    unfolding fun_eq_iff send_message_to_assigned_users_def
      send_message_to_assigned_users_on_def a b by simp
qed

lemma slack_client_answers: "answers_all (slack_client w) d s q p m"
proof -
  have "answers_email (slack_client w) s q p m step email" for step email
    by (simp add: answers_email_def slack_client_def split: slack_result.splits option.splits)
  then show ?thesis
    by (simp add: answers_all_def list_all_iff)
qed

lemma slack_client_identity: "client_identity (slack_client w) = chat_identity w"
  by (simp add: fun_eq_iff client_identity_def chat_identity_def slack_client_def
        split: slack_result.splits)












section \<open>The claims\<close>

subsection \<open>C1: who is told of a Shot status change\<close>




subsection \<open>C2: the two status tables\<close>

text \<open>
  C2. The claim holds for the Asset handler and fails for the Shot handler: when a
  request is served the global \<^verbatim>\<open>STATUS_DESCRIPTIONS\<close> is the table of line 470, so a Shot
  event from \<^verbatim>\<open>pla\<close> to \<^verbatim>\<open>ia\<close> is worded with the raw code \<^verbatim>\<open>pla\<close>, which the table of
  line 287 calls Plate, and with the label Internally Approved, which only the table of
  line 470 has.
\<close>

theorem shot_event_reads_last_table:
  "STATUS_DESCRIPTIONS = STATUS_DESCRIPTIONS_470
   \<and> status_get STATUS_DESCRIPTIONS_287 (PStr ''pla'') = PStr ''Plate''
   \<and> status_get STATUS_DESCRIPTIONS_287 (PStr ''ia'') = PStr ''ia''
   \<and> posts (trace_of (webhook demo_world (Some (shot_event ''pla'' ''ia'')))) =
       [(PStr ''U7'', personalized (PStr ''Atlas'') (PStr ''SQ010'') (PStr ''SH020'') (PStr ''anim'')
                        (shot_status_message (PStr ''pla'') (PStr ''Internally Approved''))),
        (PStr ''U9'', personalized (PStr ''Atlas'') (PStr ''SQ010'') (PStr ''SH020'') (PStr ''comp'')
                        (shot_status_message (PStr ''pla'') (PStr ''Internally Approved''))),
        (PStr ''U7'', personalized (PStr ''Atlas'') (PStr ''SQ010'') (PStr ''SH020'') (PStr ''comp'')
                        (shot_status_message (PStr ''pla'') (PStr ''Internally Approved'')))]"
proof -
  let ?ev = "shot_event ''pla'' ''ia''"
  have h1: "entity_type ?ev = PStr ''Shot''" by (simp add: demo_defs)
  have h2: "get_assigned_users_from_tasks demo_world (entity_id ?ev) =
     (Inr (Some [(PStr ''anim'', [PStr ''ann@x.io'']),
                 (PStr ''comp'', [PStr ''cem@x.io'', PStr ''bob@x.io'', PStr ''ann@x.io''])],
           PStr ''SH020'', PStr ''SQ010'', PStr ''Atlas''),
      [FindOne ''Shot'' (PInt 1), Find ''Task'' ''Shot'' (PInt 1), FindOne ''HumanUser'' (PInt 7),
       FindOne ''HumanUser'' (PInt 9), FindOne ''HumanUser'' (PInt 8),
       FindOne ''HumanUser'' (PInt 7)])"
    using demo_recipients by (simp add: demo_event_def shot_event_def)
  have w: "webhook demo_world (Some ?ev) = handle_shot_event demo_world ?ev"
    by (rule webhook_shot[OF h1]) (rule handle_shot_event_ok(1)[OF h2], simp)
  have t: "STATUS_DESCRIPTIONS = STATUS_DESCRIPTIONS_470"
    by (simp add: STATUS_DESCRIPTIONS_def)
  have "posts (trace_of (webhook demo_world (Some ?ev))) =
          deliveries demo_world [(PStr ''anim'', [PStr ''ann@x.io'']),
                 (PStr ''comp'', [PStr ''cem@x.io'', PStr ''bob@x.io'', PStr ''ann@x.io''])]
            (PStr ''SH020'') (PStr ''SQ010'') (PStr ''Atlas'')
            (shot_status_message (status_get STATUS_DESCRIPTIONS (old_value ?ev))
                                 (status_get STATUS_DESCRIPTIONS (new_value ?ev)))"
    by (simp add: w trace_of_def handle_shot_event_ok(2)[OF h2])
  then show ?thesis
    by (simp add: t deliveries_def List.map_filter_simps demo_identities
          STATUS_DESCRIPTIONS_287_def STATUS_DESCRIPTIONS_470_def demo_event_def shot_event_def)
qed

subsection \<open>C3: sends and the rate limiter\<close>

text \<open>
  C3, as stated, fails. Assigning Ann to task 30 sends her a message, and the trace of
  the request has no call of \<^verbatim>\<open>throttle()\<close> in it.
\<close>

theorem sends_are_not_gated_counterexample:
  "posts (trace_of (webhook demo_world (Some (task_event 30 [ann] [])))) =
     [(PStr ''U7'', ''In Atlas|SQ010|SH020|anim\<newline>You have been assigned to a task.'')]
   \<and> filter is_throttle (trace_of (webhook demo_world (Some (task_event 30 [ann] [])))) = []
   \<and> \<not> gated (trace_of (webhook demo_world (Some (task_event 30 [ann] []))))"
  by (simp add: webhook_def handle_task_assignment_event_def Let_def eff_simps trace_of_def
        get_shotgrid_user_email_def find_slack_user_by_email_def users_lookupByEmail_def
        send_slack_message_def chat_postMessage_def etry_def gated_def demo_defs)

text \<open>
  C3, amended. No request ever calls \<^verbatim>\<open>throttler.throttle()\<close>: the limiter is built at line
  50 and never asked, so a request is gated only when it sends nothing.
\<close>

theorem webhook_never_throttles:
  "filter is_throttle (trace_of (webhook w request_json)) = []
   \<and> gated (trace_of (webhook w request_json)) = (posts (trace_of (webhook w request_json)) = [])"
  by (simp add: trace_of_def filter_throttle_empty gated_no_throttle webhook_unthrottled)

subsection \<open>C4: the rate limiter's window\<close>

text \<open>
  C4, as stated, fails. The limiter built at time 0 with \<open>max_calls = 5\<close> and
  \<open>period = 10\<close> admits five calls at time 9 and, its counter reset by the first call
  later than time 10, five more at time 11: ten admitted calls inside the rolling
  window from 9 to 19, none rejected.
\<close>

theorem throttle_rolling_window_counterexample:
  "\<not> admitted_in_window (throttler 0) [9, 9, 9, 9, 9, 11, 11, 11, 11, 11] 9
       \<le> nat (max_calls (throttler 0))
   \<and> admitted (throttle_all (throttler 0) [9, 9, 9, 9, 9, 11, 11, 11, 11, 11]) = 10
   \<and> rejected (throttle_all (throttler 0) [9, 9, 9, 9, 9, 11, 11, 11, 11, 11]) = 0"
  by (simp add: admitted_in_window_def admitted_def rejected_def throttler_def Throttler_init_def
        throttle_def Let_def)

text \<open>
  C4, amended. \<^verbatim>\<open>Throttler\<close> counts in fixed windows: a window starts at \<open>last_reset\<close> and
  the first call later than \<open>period\<close> after it starts the next one, with the counter at
  0. Of a burst of calls inside one window, whether the window is the current one or the
  one that the first call of the burst starts, the first \<open>max_calls - c\<close> are admitted
  and all others rejected, where \<open>c\<close> is the counter of the window at the first call (0
  for a new limiter and for a window that the first call starts). So no window admits
  more than \<open>max_calls\<close> calls, and \<open>max_calls + k\<close> calls from the start of a window give
  \<open>max_calls\<close> admitted and \<open>k\<close> rejected. The counter never goes below 0, so this holds
  again for whatever follows the burst.
\<close>

theorem throttle_fixed_window:
  assumes "one_window self ts"
      and "0 \<le> calls self"
  shows "admitted (throttle_all self ts) =
           min (length ts) (nat (max_calls self - window_calls self ts))
         \<and> rejected (throttle_all self ts) =
             length ts - nat (max_calls self - window_calls self ts)
         \<and> admitted (throttle_all self ts) \<le> nat (max_calls self)
         \<and> 0 \<le> calls (throttle_end self ts)"
proof -
  have a: "admitted (throttle_all self ts) =
             min (length ts) (nat (max_calls self - window_calls self ts))"
    by (rule one_window_count[OF assms(1)])
  have "admitted (throttle_all self ts) + rejected (throttle_all self ts) = length ts"
    by (simp add: admitted_rejected length_throttle_all)
  with a have r: "rejected (throttle_all self ts) =
                   length ts - nat (max_calls self - window_calls self ts)"
    by (simp add: min_def split: if_splits)
  have b: "admitted (throttle_all self ts) \<le> nat (max_calls self)"
    using a window_calls_nonneg[OF assms(2), of ts] by simp
  show ?thesis
    using a r b throttle_end_calls_nonneg[OF assms(2)] by simp
qed

theorem throttle_fixed_window_witness:
  "one_window (throttler 0) [20, 21, 22, 23, 24, 25, 26]
   \<and> window_calls (throttler 0) [20, 21, 22, 23, 24, 25, 26] = 0
   \<and> admitted (throttle_all (throttler 0) [20, 21, 22, 23, 24, 25, 26]) = 5
   \<and> rejected (throttle_all (throttler 0) [20, 21, 22, 23, 24, 25, 26]) = 2
   \<and> one_window (throttle_end (throttler 0) [1, 2, 3]) [4, 5, 6, 7]
   \<and> window_calls (throttle_end (throttler 0) [1, 2, 3]) [4, 5, 6, 7] = 3
   \<and> admitted (throttle_all (throttle_end (throttler 0) [1, 2, 3]) [4, 5, 6, 7]) = 2
   \<and> rejected (throttle_all (throttle_end (throttler 0) [1, 2, 3]) [4, 5, 6, 7]) = 2"
proof -
  have e: "throttle_end (throttler 0) [1, 2, 3] =
             \<lparr>max_calls = 5, period = 10, calls = 3, last_reset = 0\<rparr>"
    by (simp add: throttler_def Throttler_init_def throttle_def Let_def)
  have h1: "one_window (throttler 0) [20, 21, 22, 23, 24, 25, 26]"
    by (simp add: one_window_def window_start_def throttler_def Throttler_init_def)
  have h2: "0 \<le> calls (throttler 0)"
    by (simp add: throttler_def Throttler_init_def)
  have w1: "window_calls (throttler 0) [20, 21, 22, 23, 24, 25, 26] = 0"
    by (simp add: window_calls_def throttler_def Throttler_init_def)
  have h3: "one_window (throttle_end (throttler 0) [1, 2, 3]) [4, 5, 6, 7]"
    unfolding e by (simp add: one_window_def window_start_def)
  have h4: "0 \<le> calls (throttle_end (throttler 0) [1, 2, 3])"
    unfolding e by simp
  have w2: "window_calls (throttle_end (throttler 0) [1, 2, 3]) [4, 5, 6, 7] = 3"
    unfolding e by (simp add: window_calls_def)
  have m1: "max_calls (throttler 0) = 5"
    by (simp add: throttler_def Throttler_init_def)
  have m2: "max_calls (throttle_end (throttler 0) [1, 2, 3]) = 5"
    unfolding e by simp
  show ?thesis
    using h1 w1 h3 w2 throttle_fixed_window[OF h1 h2] throttle_fixed_window[OF h3 h4]
    unfolding m1 m2 w1 w2 by simp
qed

subsection \<open>C5: who is told of a Reply\<close>

text \<open>
  C5, as stated, fails. Reply 50 is on a note without links and its author Ann has a chat
  identity: she is sent a body that begins "A new Reply has been created by you:", which
  is not the body of the claim.
\<close>

theorem reply_author_copy_counterexample:
  "posts (trace_of (webhook demo_world (Some (reply_event 50)))) =
     [(PStr ''U7'', reply_message_by_you (PStr ''ok'') (PStr ''fix''))]
   \<and> reply_message_by_you (PStr ''ok'') (PStr ''fix'') \<noteq> reply_message (PStr ''ok'') (PStr ''fix'')"
  by (simp add: webhook_reply_outcome(2)[OF demo_reply_event(1,2,3) demo_replies_linked(1)]
        demo_reply_event(4)
        demo_reply_outcomes(1) reply_message_by_you_def reply_message_def)

text \<open>
  C5, amended. A Reply-created event on a note without links, or on a note whose first
  link is a Shot, comes to what \<open>reply_outcome\<close> says. When the first link is a Shot
  with a recipient set that is not empty, each recipient with a chat identity is sent
  the context prefix followed by "A new Reply has been created:", the reply and the
  note, and the answer is success; when that Shot has no recipients the answer is 404
  and nothing is sent. When the note has no link, the author, if the author's email has
  a chat identity, is sent "A new Reply has been created by you:" with the reply and the
  note, and the answer is success; else nothing is sent and the answer is 404.
\<close>

theorem reply_event_delivery:
  assumes "entity_type event_data = PStr ''Reply''"
      and "event_type event_data = PStr ''Shotgun_Reply_New''"
      and "operation event_data = PStr ''create''"
      and "shot_or_unlinked (sg_reply w (entity_id event_data))"
  shows "response_of (webhook w (Some event_data)) =
           Some (fst (reply_outcome w (sg_reply w (entity_id event_data))))
         \<and> posts (trace_of (webhook w (Some event_data))) =
             snd (reply_outcome w (sg_reply w (entity_id event_data)))"
  using webhook_reply_outcome[OF assms] by simp

theorem reply_event_delivery_witness:
  "response_of (webhook demo_world (Some (reply_event 50))) = Some (''success'', 200)
   \<and> posts (trace_of (webhook demo_world (Some (reply_event 50)))) =
       [(PStr ''U7'', reply_message_by_you (PStr ''ok'') (PStr ''fix''))]
   \<and> response_of (webhook demo_world (Some (reply_event 51))) = Some (''success'', 200)
   \<and> posts (trace_of (webhook demo_world (Some (reply_event 51)))) =
      [(PStr ''U7'', personalized (PStr ''Atlas'') (PStr ''SQ010'') (PStr ''SH020'') (PStr ''anim'')
                       (reply_message (PStr ''ok'') (PStr ''fix''))),
       (PStr ''U9'', personalized (PStr ''Atlas'') (PStr ''SQ010'') (PStr ''SH020'') (PStr ''comp'')
                       (reply_message (PStr ''ok'') (PStr ''fix''))),
       (PStr ''U7'', personalized (PStr ''Atlas'') (PStr ''SQ010'') (PStr ''SH020'') (PStr ''comp'')
                       (reply_message (PStr ''ok'') (PStr ''fix'')))]
   \<and> response_of (webhook demo_world (Some (reply_event 52))) =
       Some (''No users found for notification'', 404)
   \<and> posts (trace_of (webhook demo_world (Some (reply_event 52)))) = []
   \<and> response_of (webhook demo_world (Some (reply_event 53))) =
       Some (''No assigned users found for linked entity'', 404)
   \<and> posts (trace_of (webhook demo_world (Some (reply_event 53)))) = []"
  using reply_event_delivery[OF demo_reply_event(1,2,3) demo_replies_linked(1)]
        reply_event_delivery[OF demo_reply_event(1,2,3) demo_replies_linked(2)]
        reply_event_delivery[OF demo_reply_event(1,2,3) demo_replies_linked(3)]
        reply_event_delivery[OF demo_reply_event(1,2,3) demo_replies_linked(4)]
  by (simp add: demo_reply_event(4) demo_reply_outcomes)

subsection \<open>C6: a Version without a Shot\<close>

text \<open>
  C6. For a Version that exists and has no linked Shot the resolution returns the empty
  recipient set with the names of the version and of its project; for a Version that
  does not exist it returns \<^verbatim>\<open>None\<close> three times. The two results differ.
\<close>

theorem version_without_shot:
  assumes "sg_version w version_id = Some version_details"
      and "\<not> truthy (get_d (version_shot_code version_details) PNone)"
      and "sg_version w missing_id = None"
  shows "response_of (get_assigned_users_from_version_tasks w version_id) =
           Some (Some [], get_d (version_code version_details) (PStr ''Unknown Version''),
                 get_d (version_project_name version_details) (PStr ''Unknown Project''))
         \<and> response_of (get_assigned_users_from_version_tasks w missing_id) =
             Some (None, PNone, PNone)
         \<and> response_of (get_assigned_users_from_version_tasks w version_id) \<noteq>
             response_of (get_assigned_users_from_version_tasks w missing_id)"
  using assms
  by (simp add: get_assigned_users_from_version_tasks_def Let_def eff_simps response_of_def)

theorem version_without_shot_witness:
  "response_of (get_assigned_users_from_version_tasks demo_world (PInt 40)) =
     Some (Some [], PStr ''v003'', PStr ''Atlas'')
   \<and> response_of (get_assigned_users_from_version_tasks demo_world (PInt 41)) =
       Some (None, PNone, PNone)
   \<and> response_of (get_assigned_users_from_version_tasks demo_world (PInt 40)) \<noteq>
       response_of (get_assigned_users_from_version_tasks demo_world (PInt 41))"
proof -
  let ?vd = "\<lparr>version_code = Some (PStr ''v003''), version_project_name = Some (PStr ''Atlas''),
              version_shot_code = Some PNone\<rparr>"
  have h1: "sg_version demo_world (PInt 40) = Some ?vd" by (simp add: demo_defs)
  have h2: "\<not> truthy (get_d (version_shot_code ?vd) PNone)" by simp
  have h3: "sg_version demo_world (PInt 41) = None" by (simp add: demo_defs)
  show ?thesis using version_without_shot[OF h1 h2 h3] by simp
qed

subsection \<open>C7: a failure for one recipient\<close>

text \<open>
  C7, as stated, fails. With a client whose network fails on the send to U9, the fan-out
  over Cem, Bob and Ann raises at Cem, the first of them: the \<^verbatim>\<open>except\<close> clauses of lines
  58 and 246 name \<^verbatim>\<open>SlackApiError\<close> only, so the exception leaves both loops, and Bob and
  Ann are never looked up.
\<close>

theorem fan_out_aborted_counterexample:
  "postMessage faulty_client (PStr ''U9'') ''In Atlas|SQ010|SH020|comp\<newline>hello'' =
     Inl (OSError ''timed out'')
   \<and> response_of (send_message_to_assigned_users_on faulty_client
         [(PStr ''comp'', [PStr ''cem@x.io'', PStr ''bob@x.io'', PStr ''ann@x.io''])]
         (PStr ''SH020'') (PStr ''SQ010'') (PStr ''Atlas'') ''hello'') = None
   \<and> lookups (trace_of (send_message_to_assigned_users_on faulty_client
         [(PStr ''comp'', [PStr ''cem@x.io'', PStr ''bob@x.io'', PStr ''ann@x.io''])]
         (PStr ''SH020'') (PStr ''SQ010'') (PStr ''Atlas'') ''hello'')) = [PStr ''cem@x.io'']
   \<and> all_emails [(PStr ''comp'', [PStr ''cem@x.io'', PStr ''bob@x.io'', PStr ''ann@x.io''])] =
       [PStr ''cem@x.io'', PStr ''bob@x.io'', PStr ''ann@x.io'']"
  by (simp add: send_message_to_assigned_users_on_def find_slack_user_by_email_on_def
        users_lookupByEmail_on_def send_slack_message_on_def chat_postMessage_on_def
        etry_def ethen_def ebind_def eret_def log_def emit_def response_of_def trace_of_def
        all_emails_def faulty_client_def slack_client_def demo_world_def)

text \<open>
  C7, amended. When every failure of the client for the recipients at hand is a
  \<^verbatim>\<open>SlackApiError\<close>, the fan-out does not raise. It looks up every email of the recipient
  set once, in order, whatever happened to the emails before it; it sends once to each
  email that has a chat identity, whether or not Slack accepts the send; and it logs one
  warning for each email that has none. The world of the handlers has such a client.
\<close>

theorem fan_out_survives_slack_errors:
  assumes "answers_all c assigned_users_by_step shot_name sequence_name project_name
             message_content"
  shows "response_of (send_message_to_assigned_users_on c assigned_users_by_step shot_name
                        sequence_name project_name message_content) = Some ()
         \<and> lookups (trace_of (send_message_to_assigned_users_on c assigned_users_by_step
                       shot_name sequence_name project_name message_content)) =
             all_emails assigned_users_by_step
         \<and> posts (trace_of (send_message_to_assigned_users_on c assigned_users_by_step
                     shot_name sequence_name project_name message_content)) =
             deliveries_on c assigned_users_by_step shot_name sequence_name project_name
               message_content
         \<and> warnings (trace_of (send_message_to_assigned_users_on c assigned_users_by_step
                        shot_name sequence_name project_name message_content)) =
             map (\<lambda>email. ''Could not find Slack user for email: '' @ py_str email)
                 (skipped_on c assigned_users_by_step)"
  using outer_on[OF assms] by (simp add: response_of_def trace_of_def)

theorem fan_out_survives_slack_errors_witness:
  "answers_all (slack_client demo_world)
     [(PStr ''comp'', [PStr ''cem@x.io'', PStr ''bob@x.io'', PStr ''ann@x.io''])]
     (PStr ''SH020'') (PStr ''SQ010'') (PStr ''Atlas'') ''hello''
   \<and> postMessage (slack_client demo_world) (PStr ''U9'')
         ''In Atlas|SQ010|SH020|comp\<newline>hello'' =
       Inl (SlackApiError ''channel_not_found'' ''channel_not_found'')
   \<and> response_of (send_message_to_assigned_users_on (slack_client demo_world)
         [(PStr ''comp'', [PStr ''cem@x.io'', PStr ''bob@x.io'', PStr ''ann@x.io''])]
         (PStr ''SH020'') (PStr ''SQ010'') (PStr ''Atlas'') ''hello'') = Some ()
   \<and> lookups (trace_of (send_message_to_assigned_users_on (slack_client demo_world)
         [(PStr ''comp'', [PStr ''cem@x.io'', PStr ''bob@x.io'', PStr ''ann@x.io''])]
         (PStr ''SH020'') (PStr ''SQ010'') (PStr ''Atlas'') ''hello'')) =
       [PStr ''cem@x.io'', PStr ''bob@x.io'', PStr ''ann@x.io'']
   \<and> posts (trace_of (send_message_to_assigned_users_on (slack_client demo_world)
         [(PStr ''comp'', [PStr ''cem@x.io'', PStr ''bob@x.io'', PStr ''ann@x.io''])]
         (PStr ''SH020'') (PStr ''SQ010'') (PStr ''Atlas'') ''hello'')) =
       [(PStr ''U9'', ''In Atlas|SQ010|SH020|comp\<newline>hello''),
        (PStr ''U7'', ''In Atlas|SQ010|SH020|comp\<newline>hello'')]
   \<and> warnings (trace_of (send_message_to_assigned_users_on (slack_client demo_world)
         [(PStr ''comp'', [PStr ''cem@x.io'', PStr ''bob@x.io'', PStr ''ann@x.io''])]
         (PStr ''SH020'') (PStr ''SQ010'') (PStr ''Atlas'') ''hello'')) =
       [''Could not find Slack user for email: bob@x.io'']"
proof -
  have h: "answers_all (slack_client demo_world)
     [(PStr ''comp'', [PStr ''cem@x.io'', PStr ''bob@x.io'', PStr ''ann@x.io''])]
     (PStr ''SH020'') (PStr ''SQ010'') (PStr ''Atlas'') ''hello''"
    by (simp add: answers_all_def answers_email_def client_identity_def personalized_def
          slack_client_def demo_world_def)
  have i: "client_identity (slack_client demo_world) (PStr ''cem@x.io'') = Some (PStr ''U9'')"
          "client_identity (slack_client demo_world) (PStr ''bob@x.io'') = None"
          "client_identity (slack_client demo_world) (PStr ''ann@x.io'') = Some (PStr ''U7'')"
    by (simp_all add: client_identity_def slack_client_def demo_world_def)
  have p: "postMessage (slack_client demo_world) (PStr ''U9'')
         ''In Atlas|SQ010|SH020|comp\<newline>hello'' =
       Inl (SlackApiError ''channel_not_found'' ''channel_not_found'')"
    by (simp add: slack_client_def demo_world_def)
  show ?thesis
    using h p fan_out_survives_slack_errors[OF h]
    by (simp add: deliveries_on_def skipped_on_def all_emails_def i personalized_def
          List.map_filter_simps)
qed

subsection \<open>C8: envelopes the webhook does not route\<close>

text \<open>
  C8. An envelope that matches no row of the dispatch of \<^verbatim>\<open>webhook\<close>, as every envelope of
  entity type Asset does, is answered with status 400, and the request queries the
  tracking source not once, looks no one up in the chat directory and sends no message.
\<close>

theorem unrouted_event_rejected:
  assumes "entity_type event_data = PStr ''Asset'' \<or> \<not> routed event_data"
  shows "response_of (webhook w (Some event_data)) = Some (''Entity type or event not supported'', 400)
         \<and> filter is_query (trace_of (webhook w (Some event_data))) = []
         \<and> lookups (trace_of (webhook w (Some event_data))) = []
         \<and> posts (trace_of (webhook w (Some event_data))) = []"
proof -
  have "\<not> routed event_data" using assms by (auto simp: routed_def)
  then have "webhook w (Some event_data) =
      (Inr (''Entity type or event not supported'', 400),
       [Log WARNING (''Unsupported entity type or event: '' @ py_str (entity_type event_data)
                     @ '', '' @ py_str (event_type event_data))])"
    by (auto simp: routed_def webhook_def eff_simps)
  then show ?thesis
    by (simp add: response_of_def trace_of_def)
qed

theorem unrouted_event_rejected_witness:
  "entity_type (demo_event ''Asset'' ''Shotgun_Asset_Change'' ''update'' 2) = PStr ''Asset''
   \<and> response_of (webhook demo_world (Some (demo_event ''Asset'' ''Shotgun_Asset_Change'' ''update'' 2)))
       = Some (''Entity type or event not supported'', 400)
   \<and> filter is_query (trace_of (webhook demo_world
         (Some (demo_event ''Asset'' ''Shotgun_Asset_Change'' ''update'' 2)))) = []
   \<and> lookups (trace_of (webhook demo_world
         (Some (demo_event ''Asset'' ''Shotgun_Asset_Change'' ''update'' 2)))) = []
   \<and> posts (trace_of (webhook demo_world
         (Some (demo_event ''Asset'' ''Shotgun_Asset_Change'' ''update'' 2)))) = []"
proof -
  have h: "entity_type (demo_event ''Asset'' ''Shotgun_Asset_Change'' ''update'' 2) = PStr ''Asset''"
    by (simp add: demo_event_def)
  then have h': "entity_type (demo_event ''Asset'' ''Shotgun_Asset_Change'' ''update'' 2) = PStr ''Asset''
     \<or> \<not> routed (demo_event ''Asset'' ''Shotgun_Asset_Change'' ''update'' 2)" by simp
  show ?thesis
    using h unrouted_event_rejected[OF h', of demo_world] by simp
qed

subsection \<open>C9: an assignment, end to end\<close>

text \<open>
  C9. A Task-assignment event that adds user 7 and removes no one, for a task of step
  anim linked to shot SH020 of sequence SQ010 of project Atlas, where user 7 has an email
  with a chat identity, sends that identity the one message
  "In Atlas|SQ010|SH020|anim" and, on the next line, "You have been assigned to a task.",
  and is answered with success.
\<close>

theorem task_assignment_end_to_end:
  assumes "entity_type event_data = PStr ''Task''"
      and "event_type event_data = PStr ''Shotgun_Task_Change''"
      and "operation event_data = PStr ''update''"
      and "attribute_name event_data = PStr ''task_assignees''"
      and "added event_data = [assignee]" and "link_id assignee = PInt 7"
      and "removed event_data = []"
      and "sg_task w (entity_id event_data) = Some task_details"
      and "task_entity task_details = Some linked_shot"
      and "link_type linked_shot = ''Shot''" and "link_name linked_shot = PStr ''SH020''"
      and "task_step task_details = Some (PStr ''anim'')"
      and "sg_shot w (link_id linked_shot) = Some shot_details"
      and "shot_project_name shot_details = Some (PStr ''Atlas'')"
      and "shot_sequence_code shot_details = Some (PStr ''SQ010'')"
      and "sg_user w (PInt 7) = Some user" and "hu_email user = Some user_email"
      and "truthy user_email"
      and "chat_identity w user_email = Some slack_user_id"
  shows "response_of (webhook w (Some event_data)) = Some (''success'', 200)
         \<and> posts (trace_of (webhook w (Some event_data))) =
             [(slack_user_id, ''In Atlas|SQ010|SH020|anim\<newline>You have been assigned to a task.'')]"
proof -
  obtain tr where h: "handle_task_assignment_event w event_data = (Inr (''success'', 200), tr)"
      and p: "posts tr = [(slack_user_id,
                ''In Atlas|SQ010|SH020|anim\<newline>You have been assigned to a task.'')]"
    using assms(4-)
    by (auto simp: handle_task_assignment_event_def Let_def eff_simps get_shotgrid_user_email_eq
          find_slack_user_by_email_eq send_slack_message_eq chat_identity_def posts_append
          split: slack_result.splits if_splits)
  have "webhook w (Some event_data) = handle_task_assignment_event w event_data"
    by (rule webhook_task[OF assms(1,2,3)]) (simp add: h)
  then show ?thesis by (simp add: h p response_of_def trace_of_def)
qed

theorem task_assignment_end_to_end_witness:
  "response_of (webhook demo_world (Some (task_event 30 [ann] []))) = Some (''success'', 200)
   \<and> posts (trace_of (webhook demo_world (Some (task_event 30 [ann] [])))) =
       [(PStr ''U7'', ''In Atlas|SQ010|SH020|anim\<newline>You have been assigned to a task.'')]"
proof -
  let ?ev = "task_event 30 [ann] []"
  let ?shot = "\<lparr>link_type = ''Shot'', link_id = PInt 1, link_name = PStr ''SH020''\<rparr>"
  let ?task = "\<lparr>task_assignees = [ann], task_step = Some (PStr ''anim''),
                task_entity = Some ?shot\<rparr>"
  let ?sd = "\<lparr>shot_code = Some (PStr ''SH020''), shot_project_name = Some (PStr ''Atlas''),
              shot_sequence_code = Some (PStr ''SQ010'')\<rparr>"
  let ?user = "\<lparr>hu_email = Some (PStr ''ann@x.io'')\<rparr>"
  have e1: "entity_type ?ev = PStr ''Task''"
   and e2: "event_type ?ev = PStr ''Shotgun_Task_Change''"
   and e3: "operation ?ev = PStr ''update''"
   and e4: "attribute_name ?ev = PStr ''task_assignees''"
   and e5: "added ?ev = [ann]" and e6: "link_id ann = PInt 7" and e7: "removed ?ev = []"
    by (simp_all add: demo_defs)
  have t1: "sg_task demo_world (entity_id ?ev) = Some ?task" by (simp add: demo_defs)
  have t2: "task_entity ?task = Some ?shot" by simp
  have t3: "link_type ?shot = ''Shot''" and t4: "link_name ?shot = PStr ''SH020''" by simp_all
  have t5: "task_step ?task = Some (PStr ''anim'')" by simp
  have s1: "sg_shot demo_world (link_id ?shot) = Some ?sd" by (simp add: demo_defs)
  have s2: "shot_project_name ?sd = Some (PStr ''Atlas'')"
   and s3: "shot_sequence_code ?sd = Some (PStr ''SQ010'')" by simp_all
  have u1: "sg_user demo_world (PInt 7) = Some ?user" by (simp add: demo_defs)
  have u2: "hu_email ?user = Some (PStr ''ann@x.io'')" by simp
  have u3: "truthy (PStr ''ann@x.io'')" by simp
  have u4: "chat_identity demo_world (PStr ''ann@x.io'') = Some (PStr ''U7'')"
    by (simp add: chat_identity_def demo_defs)
  show ?thesis
    by (rule task_assignment_end_to_end[OF e1 e2 e3 e4 e5 e6 e7 t1 t2 t3 t4 t5 s1 s2 s3 u1 u2 u3 u4])
qed

subsection \<open>C10: a Task that is not linked to a Shot\<close>

text \<open>
  C10. A Task event of the assignment row (update, \<^verbatim>\<open>Shotgun_Task_Change\<close>, attribute
  \<^verbatim>\<open>task_assignees\<close>) whose Task record exists but whose \<^verbatim>\<open>entity\<close> is absent or is not a
  Shot is answered with "Not linked to a Shot" and status 200, and no message is sent.
\<close>

theorem task_not_linked_to_shot:
  assumes "entity_type event_data = PStr ''Task''"
      and "event_type event_data = PStr ''Shotgun_Task_Change''"
      and "operation event_data = PStr ''update''"
      and "attribute_name event_data = PStr ''task_assignees''"
      and "sg_task w (entity_id event_data) = Some task_details"
      and "map_option link_type (task_entity task_details) \<noteq> Some ''Shot''"
  shows "response_of (webhook w (Some event_data)) = Some (''Not linked to a Shot'', 200)
         \<and> lookups (trace_of (webhook w (Some event_data))) = []
         \<and> posts (trace_of (webhook w (Some event_data))) = []"
proof -
  have h: "handle_task_assignment_event w event_data =
        (Inr (''Not linked to a Shot'', 200),
         [FindOne ''Task'' (entity_id event_data),
          Log INFO (''Task '' @ py_str (entity_id event_data) @ '' is not linked to a Shot.'')])"
    using assms(4,5,6)
    by (auto simp: handle_task_assignment_event_def Let_def eff_simps split: option.splits)
  have "webhook w (Some event_data) = handle_task_assignment_event w event_data"
    by (rule webhook_task[OF assms(1,2,3)]) (simp add: h)
  then show ?thesis by (simp add: h response_of_def trace_of_def)
qed

theorem task_not_linked_to_shot_witness:
  "response_of (webhook demo_world (Some (task_event 31 [ann] []))) = Some (''Not linked to a Shot'', 200)
   \<and> lookups (trace_of (webhook demo_world (Some (task_event 31 [ann] [])))) = []
   \<and> posts (trace_of (webhook demo_world (Some (task_event 31 [ann] [])))) = []
   \<and> response_of (webhook demo_world (Some (task_event 32 [ann] []))) = Some (''Not linked to a Shot'', 200)
   \<and> lookups (trace_of (webhook demo_world (Some (task_event 32 [ann] [])))) = []
   \<and> posts (trace_of (webhook demo_world (Some (task_event 32 [ann] [])))) = []"
proof -
  let ?asset_task = "\<lparr>task_assignees = [ann], task_step = Some (PStr ''model''),
                      task_entity = Some \<lparr>link_type = ''Asset'', link_id = PInt 2,
                                          link_name = PStr ''Tree''\<rparr>\<rparr>"
  let ?free_task = "\<lparr>task_assignees = [ann], task_step = Some (PStr ''anim''),
                     task_entity = None\<rparr>"
  have e1: "entity_type (task_event i [ann] []) = PStr ''Task''"
   and e2: "event_type (task_event i [ann] []) = PStr ''Shotgun_Task_Change''"
   and e3: "operation (task_event i [ann] []) = PStr ''update''"
   and e4: "attribute_name (task_event i [ann] []) = PStr ''task_assignees''" for i
    by (simp_all add: demo_defs)
  have t31: "sg_task demo_world (entity_id (task_event 31 [ann] [])) = Some ?asset_task"
    by (simp add: demo_defs)
  have t32: "sg_task demo_world (entity_id (task_event 32 [ann] [])) = Some ?free_task"
    by (simp add: demo_defs)
  have a: "map_option link_type (task_entity ?asset_task) \<noteq> Some ''Shot''"
    by simp
  have b: "map_option link_type (task_entity ?free_task) \<noteq> Some ''Shot''"
    by simp
  show ?thesis
    using task_not_linked_to_shot[OF e1 e2 e3 e4 t31 a]
          task_not_linked_to_shot[OF e1 e2 e3 e4 t32 b]
    by simp
qed

end
